theory Spec2Isabelle
  imports Complex_Main
begin

section \<open>JavaScript numbers\<close>

text \<open>
  A Number is a finite value, one of the two infinities, or NaN. What the engine computes
  on finite operands is not fixed here: every result is rounded to a 64-bit float, a
  large one overflows to an infinity, and the sine, the cosine, the arc tangent and the
  power are the approximations of the engine's library. This arithmetic is a parameter
  of the model, the record \<open>arith\<close>: what each operation gives on finite operands, the
  value of \<open>Math.PI\<close>, and \<open>fl_round\<close>, the Number that a decimal numeral of a given value
  is read as. What IEEE 754 fixes for the infinities and NaN is written out. The sign
  of zero is not modelled.
\<close>

datatype jsnum = Num real | PInf | NInf | NaN

record arith =
  fl_add :: "real \<Rightarrow> real \<Rightarrow> jsnum"
  fl_sub :: "real \<Rightarrow> real \<Rightarrow> jsnum"
  fl_mul :: "real \<Rightarrow> real \<Rightarrow> jsnum"
  fl_div :: "real \<Rightarrow> real \<Rightarrow> jsnum"
  fl_pow2 :: "real \<Rightarrow> jsnum"
  fl_sqrt :: "real \<Rightarrow> jsnum"
  fl_sin :: "real \<Rightarrow> jsnum"
  fl_cos :: "real \<Rightarrow> jsnum"
  fl_atan2 :: "real \<Rightarrow> real \<Rightarrow> jsnum"
  fl_PI :: real
  fl_round :: "real \<Rightarrow> jsnum"

fun js_add :: "arith \<Rightarrow> jsnum \<Rightarrow> jsnum \<Rightarrow> jsnum" where
  "js_add A (Num x) (Num y) = fl_add A x y"
| "js_add A NaN _ = NaN"
| "js_add A _ NaN = NaN"
| "js_add A PInf NInf = NaN"
| "js_add A NInf PInf = NaN"
| "js_add A PInf _ = PInf"
| "js_add A NInf _ = NInf"
| "js_add A _ PInf = PInf"
| "js_add A _ NInf = NInf"

fun js_sub :: "arith \<Rightarrow> jsnum \<Rightarrow> jsnum \<Rightarrow> jsnum" where
  "js_sub A (Num x) (Num y) = fl_sub A x y"
| "js_sub A NaN _ = NaN"
| "js_sub A _ NaN = NaN"
| "js_sub A PInf PInf = NaN"
| "js_sub A NInf NInf = NaN"
| "js_sub A PInf _ = PInf"
| "js_sub A NInf _ = NInf"
| "js_sub A _ PInf = NInf"
| "js_sub A _ NInf = PInf"

text \<open>The sign of an infinite product or quotient: \<open>inf_of True\<close> is \<open>+Infinity\<close>.\<close>

definition inf_of :: "bool \<Rightarrow> jsnum" where
  "inf_of positive = (if positive then PInf else NInf)"

fun js_mul :: "arith \<Rightarrow> jsnum \<Rightarrow> jsnum \<Rightarrow> jsnum" where
  "js_mul A (Num x) (Num y) = fl_mul A x y"
| "js_mul A NaN _ = NaN"
| "js_mul A _ NaN = NaN"
| "js_mul A PInf (Num y) = (if y = 0 then NaN else inf_of (0 < y))"
| "js_mul A NInf (Num y) = (if y = 0 then NaN else inf_of (y < 0))"
| "js_mul A (Num x) PInf = (if x = 0 then NaN else inf_of (0 < x))"
| "js_mul A (Num x) NInf = (if x = 0 then NaN else inf_of (x < 0))"
| "js_mul A PInf PInf = PInf"
| "js_mul A NInf NInf = PInf"
| "js_mul A PInf NInf = NInf"
| "js_mul A NInf PInf = NInf"

fun js_div :: "arith \<Rightarrow> jsnum \<Rightarrow> jsnum \<Rightarrow> jsnum" where
  "js_div A (Num x) (Num y) =
     (if y = 0 then (if x = 0 then NaN else inf_of (0 < x)) else fl_div A x y)"
| "js_div A NaN _ = NaN"
| "js_div A _ NaN = NaN"
| "js_div A (Num x) PInf = Num 0"
| "js_div A (Num x) NInf = Num 0"
| "js_div A PInf (Num y) = inf_of (0 \<le> y)"
| "js_div A NInf (Num y) = inf_of (y < 0)"
| "js_div A _ _ = NaN"

fun js_sin :: "arith \<Rightarrow> jsnum \<Rightarrow> jsnum" where
  "js_sin A (Num x) = fl_sin A x"
| "js_sin A _ = NaN"

fun js_cos :: "arith \<Rightarrow> jsnum \<Rightarrow> jsnum" where
  "js_cos A (Num x) = fl_cos A x"
| "js_cos A _ = NaN"

text \<open>\<open>x ** 2\<close>.\<close>

fun js_pow2 :: "arith \<Rightarrow> jsnum \<Rightarrow> jsnum" where
  "js_pow2 A (Num x) = fl_pow2 A x"
| "js_pow2 A PInf = PInf"
| "js_pow2 A NInf = PInf"
| "js_pow2 A NaN = NaN"

fun js_sqrt :: "arith \<Rightarrow> jsnum \<Rightarrow> jsnum" where
  "js_sqrt A (Num x) = (if x < 0 then NaN else fl_sqrt A x)"
| "js_sqrt A PInf = PInf"
| "js_sqrt A NInf = NaN"
| "js_sqrt A NaN = NaN"

text \<open>\<open>Math.atan2(y, x)\<close>: the engine's on finite arguments, then with the special values.\<close>

fun js_atan2 :: "arith \<Rightarrow> jsnum \<Rightarrow> jsnum \<Rightarrow> jsnum" where
  "js_atan2 A (Num y) (Num x) = fl_atan2 A y x"
| "js_atan2 A NaN _ = NaN"
| "js_atan2 A _ NaN = NaN"
| "js_atan2 A (Num y) PInf = Num 0"
| "js_atan2 A (Num y) NInf = fl_round A (if 0 \<le> y then pi else - pi)"
| "js_atan2 A PInf (Num x) = fl_round A (pi / 2)"
| "js_atan2 A NInf (Num x) = fl_round A (- (pi / 2))"
| "js_atan2 A PInf PInf = fl_round A (pi / 4)"
| "js_atan2 A PInf NInf = fl_round A (3 * pi / 4)"
| "js_atan2 A NInf PInf = fl_round A (- (pi / 4))"
| "js_atan2 A NInf NInf = fl_round A (- (3 * pi / 4))"

text \<open>The comparisons \<open><\<close>, \<open>>\<close> and \<open><=\<close>, all false when an operand is NaN.\<close>

fun js_lt :: "jsnum \<Rightarrow> jsnum \<Rightarrow> bool" where
  "js_lt (Num x) (Num y) = (x < y)"
| "js_lt NaN _ = False"
| "js_lt _ NaN = False"
| "js_lt _ NInf = False"
| "js_lt PInf _ = False"
| "js_lt _ _ = True"

definition js_gt :: "jsnum \<Rightarrow> jsnum \<Rightarrow> bool" where
  "js_gt a b = js_lt b a"

fun js_le :: "jsnum \<Rightarrow> jsnum \<Rightarrow> bool" where
  "js_le (Num x) (Num y) = (x \<le> y)"
| "js_le NaN _ = False"
| "js_le _ NaN = False"
| "js_le NInf _ = True"
| "js_le _ PInf = True"
| "js_le _ _ = False"

fun is_finite :: "jsnum \<Rightarrow> bool" where
  "is_finite (Num x) = True"
| "is_finite _ = False"

text \<open>
  The arithmetic without rounding and without overflow: every operation gives the
  exact real result. The examples below are evaluated in it; what is proved for every
  arithmetic holds for the engine's.
\<close>

definition atan2 :: "real \<Rightarrow> real \<Rightarrow> real" where
  "atan2 y x =
     (if 0 < x then arctan (y / x)
      else if x < 0 then (if 0 \<le> y then arctan (y / x) + pi else arctan (y / x) - pi)
      else if 0 < y then pi / 2
      else if y < 0 then - (pi / 2)
      else 0)"

definition unrounded :: arith where
  "unrounded =
     \<lparr>fl_add = (\<lambda>x y. Num (x + y)),
      fl_sub = (\<lambda>x y. Num (x - y)),
      fl_mul = (\<lambda>x y. Num (x * y)),
      fl_div = (\<lambda>x y. Num (x / y)),
      fl_pow2 = (\<lambda>x. Num (x ^ 2)),
      fl_sqrt = (\<lambda>x. Num (sqrt x)),
      fl_sin = (\<lambda>x. Num (sin x)),
      fl_cos = (\<lambda>x. Num (cos x)),
      fl_atan2 = (\<lambda>y x. Num (atan2 y x)),
      fl_PI = pi,
      fl_round = Num\<rparr>"

text \<open>
  Subtracting two finite 64-bit floats gives a number with the sign of the exact
  difference: the result is rounded, but it is never NaN and, with gradual underflow,
  zero only when the operands are equal.
\<close>

definition sub_keeps_sign :: "arith \<Rightarrow> bool" where
  "sub_keeps_sign A =
     (\<forall>x y. fl_sub A x y \<noteq> NaN
          \<and> js_lt (fl_sub A x y) (Num 0) = (x < y)
          \<and> js_gt (fl_sub A x y) (Num 0) = (y < x))"

section \<open>Distance\<close>

text \<open>\<open>haversineDistance\<close> of App.jsx, operation by operation.\<close>

definition toRad :: "arith \<Rightarrow> jsnum \<Rightarrow> jsnum" where
  "toRad A v = js_div A (js_mul A v (Num (fl_PI A))) (Num 180)"

definition haversineDistance :: "arith \<Rightarrow> jsnum \<Rightarrow> jsnum \<Rightarrow> jsnum \<Rightarrow> jsnum \<Rightarrow> jsnum" where
  "haversineDistance A lat1 lon1 lat2 lon2 =
     (let R = Num 6371000;
          phi1 = toRad A lat1;
          phi2 = toRad A lat2;
          dphi = toRad A (js_sub A lat2 lat1);
          dlam = toRad A (js_sub A lon2 lon1);
          a = js_add A (js_pow2 A (js_sin A (js_div A dphi (Num 2))))
                (js_mul A (js_mul A (js_cos A phi1) (js_cos A phi2))
                   (js_pow2 A (js_sin A (js_div A dlam (Num 2)))));
          c = js_mul A (Num 2) (js_atan2 A (js_sqrt A a) (js_sqrt A (js_sub A (Num 1) a)))
      in js_mul A R c)"

text \<open>The haversine term \<open>a\<close> in exact arithmetic, on finite arguments in degrees.\<close>

definition hav_a :: "real \<Rightarrow> real \<Rightarrow> real \<Rightarrow> real \<Rightarrow> real" where
  "hav_a lat1 lon1 lat2 lon2 =
     (sin ((lat2 - lat1) * pi / 180 / 2))\<^sup>2
       + cos (lat1 * pi / 180) * cos (lat2 * pi / 180) * (sin ((lon2 - lon1) * pi / 180 / 2))\<^sup>2"

section \<open>Strings and JSON values\<close>

text \<open>
  Strings are lists of 8-bit characters. \<open>is_js_space\<close> is the white space and the line
  terminators of JavaScript in that range: TAB, LF, VT, FF, CR, SPACE and NBSP.
\<close>

definition is_js_space :: "char \<Rightarrow> bool" where
  "is_js_space c = (of_char c \<in> {9, 10, 11, 12, 13, 32, 160 :: nat})"

text \<open>\<open>String.prototype.trim\<close>.\<close>

definition trim :: "string \<Rightarrow> string" where
  "trim s = rev (dropWhile is_js_space (rev (dropWhile is_js_space s)))"

text \<open>
  A value read from a JSON document at a position where the program expects a primitive:
  \<open>Undefined\<close> is a missing property. A number is the Number that \<open>JSON.parse\<close> made of the
  numeral: a finite value, or an infinity when the numeral is beyond the range of 64-bit
  floats (\<open>1e400\<close>). Objects and arrays at such positions are not modelled.
\<close>

datatype jsv = Undefined | Null | JBool bool | JNum jsnum | JStr string

text \<open>
  A value at a position where the program expects an object: JSON \<open>null\<close>, or an object
  with the properties the program reads.
\<close>

datatype 'a nullable = JNull | JObj 'a

text \<open>\<open>typeof v === 'number'\<close>.\<close>

fun is_number :: "jsv \<Rightarrow> bool" where
  "is_number (JNum x) = True"
| "is_number _ = False"

subsection \<open>\<open>parseFloat\<close>\<close>

text \<open>
  \<open>parseFloat\<close> reads the longest prefix of the string, after leading white space, that is
  a decimal literal: an optional sign, then \<open>Infinity\<close> or digits with an optional fraction
  and an optional exponent. No such prefix gives NaN; digits give the Number that the
  engine rounds their value to.
\<close>

definition is_digit :: "char \<Rightarrow> bool" where
  "is_digit c = (c \<in> set ''0123456789'')"

definition digit_val :: "char \<Rightarrow> nat" where
  "digit_val c = of_char c - 48"

definition digits_val :: "string \<Rightarrow> nat" where
  "digits_val ds = foldl (\<lambda>n c. 10 * n + digit_val c) 0 ds"

definition scale10 :: "real \<Rightarrow> int \<Rightarrow> real" where
  "scale10 m e = (if 0 \<le> e then m * 10 ^ nat e else m / 10 ^ nat (- e))"

definition parse_exponent :: "string \<Rightarrow> int" where
  "parse_exponent r =
     (case r of
        [] \<Rightarrow> 0
      | c # r1 \<Rightarrow>
          if c = CHR ''e'' \<or> c = CHR ''E'' then
            (case r1 of
               [] \<Rightarrow> 0
             | d # r2 \<Rightarrow>
                 if d = CHR ''-'' then - int (digits_val (takeWhile is_digit r2))
                 else if d = CHR ''+'' then int (digits_val (takeWhile is_digit r2))
                 else int (digits_val (takeWhile is_digit r1)))
          else 0)"

definition parse_unsigned :: "arith \<Rightarrow> string \<Rightarrow> jsnum" where
  "parse_unsigned A r =
     (if take 8 r = ''Infinity'' then PInf
      else
        let ip = takeWhile is_digit r;
            r1 = dropWhile is_digit r;
            fp = (case r1 of [] \<Rightarrow> [] | c # r' \<Rightarrow> if c = CHR ''.'' then takeWhile is_digit r' else []);
            r2 = (case r1 of [] \<Rightarrow> [] | c # r' \<Rightarrow> if c = CHR ''.'' then dropWhile is_digit r' else r1)
        in if ip = [] \<and> fp = [] then NaN
           else fl_round A (scale10 (real (digits_val ip) + real (digits_val fp) / 10 ^ length fp)
                              (parse_exponent r2)))"

fun js_neg :: "jsnum \<Rightarrow> jsnum" where
  "js_neg (Num x) = Num (- x)"
| "js_neg PInf = NInf"
| "js_neg NInf = PInf"
| "js_neg NaN = NaN"

definition parseFloat_str :: "arith \<Rightarrow> string \<Rightarrow> jsnum" where
  "parseFloat_str A s =
     (case dropWhile is_js_space s of
        [] \<Rightarrow> NaN
      | c # r \<Rightarrow>
          if c = CHR ''-'' then js_neg (parse_unsigned A r)
          else if c = CHR ''+'' then parse_unsigned A r
          else parse_unsigned A (c # r))"

text \<open>
  \<open>parseFloat\<close> converts its argument to a string first: a Number reads back as itself,
  and \<open>undefined\<close>, \<open>null\<close>, \<open>true\<close> and \<open>false\<close> read as NaN.
\<close>

fun parseFloat :: "arith \<Rightarrow> jsv \<Rightarrow> jsnum" where
  "parseFloat A (JStr s) = parseFloat_str A s"
| "parseFloat A (JNum x) = x"
| "parseFloat A _ = NaN"

text \<open>The decimal digits of a natural number, as a template literal prints it.\<close>

fun show_nat :: "nat \<Rightarrow> string" where
  "show_nat n =
     (if n < 10 then [''0123456789'' ! n]
      else show_nat (n div 10) @ [''0123456789'' ! (n mod 10)])"

section \<open>Labels\<close>

text \<open>
  The tags of a feature: a dictionary from keys to string values. A value is truthy
  when it is present and not the empty string.
\<close>

type_synonym tags = "string \<rightharpoonup> string"

fun truthy :: "string option \<Rightarrow> bool" where
  "truthy None = False"
| "truthy (Some v) = (v \<noteq> [])"

definition buildPoiLabel :: "tags \<Rightarrow> string" where
  "buildPoiLabel tags =
     (if truthy (tags ''name'') then the (tags ''name'')
      else if truthy (tags ''name:vi'') then the (tags ''name:vi'')
      else if truthy (tags ''name:en'') then the (tags ''name:en'')
      else if truthy (tags ''amenity'') then the (tags ''amenity'')
      else if truthy (tags ''tourism'') then the (tags ''tourism'')
      else if truthy (tags ''leisure'') then the (tags ''leisure'')
      else ''Point of interest'')"

definition candidates :: "string list" where
  "candidates = [''tourism'', ''amenity'', ''historic'', ''leisure'', ''shop'']"

definition buildCategory :: "tags \<Rightarrow> string" where
  "buildCategory tags =
     (case find (\<lambda>field. truthy (tags field)) candidates of
        Some key \<Rightarrow> key @ '': '' @ the (tags key)
      | None \<Rightarrow> ''Other'')"

text \<open>\<open>tags['addr:street'] || tags['addr:full'] || null\<close>.\<close>

definition address_of :: "tags \<Rightarrow> string option" where
  "address_of tags =
     (if truthy (tags ''addr:street'') then tags ''addr:street''
      else if truthy (tags ''addr:full'') then tags ''addr:full''
      else None)"

definition weather_lookup :: "(string \<times> string) list" where
  "weather_lookup =
     [(''0'', ''Clear sky''), (''1'', ''Mainly clear''), (''2'', ''Partly cloudy''),
      (''3'', ''Overcast''), (''45'', ''Fog''), (''48'', ''Depositing rime fog''),
      (''51'', ''Light drizzle''), (''53'', ''Moderate drizzle''), (''55'', ''Dense drizzle''),
      (''56'', ''Light freezing drizzle''), (''57'', ''Dense freezing drizzle''),
      (''61'', ''Slight rain''), (''63'', ''Moderate rain''), (''65'', ''Heavy rain''),
      (''66'', ''Light freezing rain''), (''67'', ''Heavy freezing rain''),
      (''71'', ''Slight snow fall''), (''73'', ''Moderate snow fall''),
      (''75'', ''Heavy snow fall''), (''77'', ''Snow grains''),
      (''80'', ''Rain showers: slight''), (''81'', ''Rain showers: moderate''),
      (''82'', ''Rain showers: violent''), (''85'', ''Snow showers: slight''),
      (''86'', ''Snow showers: heavy''), (''95'', ''Thunderstorm''),
      (''96'', ''Thunderstorm with slight hail''), (''99'', ''Thunderstorm with heavy hail'')]"

text \<open>
  The property key a weather code indexes the table with: a string is its own key, a
  natural number below \<open>10^21\<close> its decimal digits. The key of any other code
  (\<open>undefined\<close>, \<open>null\<close>, a boolean, a negative, fractional, larger or infinite number,
  NaN) names no property, of the table or inherited, and is \<open>None\<close> here.
\<close>

fun property_key :: "jsv \<Rightarrow> string option" where
  "property_key (JStr s) = Some s"
| "property_key (JNum (Num x)) =
     (if x \<in> \<int> \<and> 0 \<le> x \<and> x < 10 ^ 21 then Some (show_nat (nat \<lfloor>x\<rfloor>)) else None)"
| "property_key _ = None"

text \<open>
  The table is an object literal, so a key that is none of its own reaches the
  properties every object inherits from \<open>Object.prototype\<close>; their values are functions
  or objects, all truthy.
\<close>

definition inherited_properties :: "string list" where
  "inherited_properties =
     [''constructor'', ''hasOwnProperty'', ''isPrototypeOf'', ''propertyIsEnumerable'',
      ''toLocaleString'', ''toString'', ''valueOf'', ''__proto__'', ''__defineGetter__'',
      ''__defineSetter__'', ''__lookupGetter__'', ''__lookupSetter__'']"

text \<open>
  What \<open>describeWeatherCode\<close> returns: a text, or the inherited property of that name.
\<close>

datatype js_text = Text string | Inherited string

definition describeWeatherCode :: "jsv \<Rightarrow> js_text" where
  "describeWeatherCode code =
     (case property_key code of
        None \<Rightarrow> Text ''Weather data unavailable''
      | Some k \<Rightarrow>
          (case map_of weather_lookup k of
             Some found \<Rightarrow> Text found
           | None \<Rightarrow>
               if k \<in> set inherited_properties then Inherited k
               else Text ''Weather data unavailable''))"

section \<open>Application state\<close>

record place =
  place_lat :: jsnum
  place_lon :: jsnum
  place_label :: jsv

record poi =
  poi_id :: jsv
  poi_name :: string
  poi_category :: string
  poi_lat :: jsnum
  poi_lon :: jsnum
  poi_distance :: jsnum
  poi_address :: "string option"

record weather =
  temperature :: jsv
  windSpeed :: jsv
  windDirection :: jsv
  description :: js_text
  observationTime :: jsv

text \<open>
  The state of the \<open>App\<close> component that the two handlers read and write. The signed-in
  user is the address the identity provider reports, \<open>None\<close> when nobody is signed in.
\<close>

record app_state =
  currentUser :: "string option"
  isLoading :: bool
  errorMessage :: string
  selectedPlace :: "place option"
  pois :: "poi list"
  weatherInfo :: "weather option"
  isTranslating :: bool
  translationResult :: string
  translationError :: string

text \<open>
  What a handler does, in order: the requests it sends and the state setters it calls.
  A request is recorded by the service it goes to and the data the program puts in it.
\<close>

datatype request =
    GeocodeRequest string
  | WeatherRequest jsnum jsnum
  | OverpassRequest jsnum jsnum
  | TranslateRequest string string

datatype event =
    Fetch request
  | SetIsLoading bool
  | SetErrorMessage string
  | SetSelectedPlace place
  | SetPois "poi list"
  | SetWeatherInfo "weather option"
  | SetIsTranslating bool
  | SetTranslationError string
  | SetTranslationResult string

fun apply_event :: "app_state \<Rightarrow> event \<Rightarrow> app_state" where
  "apply_event s (Fetch r) = s"
| "apply_event s (SetIsLoading b) = s\<lparr>isLoading := b\<rparr>"
| "apply_event s (SetErrorMessage m) = s\<lparr>errorMessage := m\<rparr>"
| "apply_event s (SetSelectedPlace p) = s\<lparr>selectedPlace := Some p\<rparr>"
| "apply_event s (SetPois ps) = s\<lparr>pois := ps\<rparr>"
| "apply_event s (SetWeatherInfo w) = s\<lparr>weatherInfo := w\<rparr>"
| "apply_event s (SetIsTranslating b) = s\<lparr>isTranslating := b\<rparr>"
| "apply_event s (SetTranslationError m) = s\<lparr>translationError := m\<rparr>"
| "apply_event s (SetTranslationResult t) = s\<lparr>translationResult := t\<rparr>"

definition run :: "app_state \<Rightarrow> event list \<Rightarrow> app_state" where
  "run s evs = foldl apply_event s evs"

fun is_fetch :: "event \<Rightarrow> bool" where
  "is_fetch (Fetch r) = True"
| "is_fetch _ = False"

section \<open>Service replies\<close>

text \<open>
  \<open>fetch\<close> either rejects, with the message of the error, or resolves with a response.
  Reading a response as JSON either rejects (the body is no JSON document) or gives the
  parsed document. A thrown value without a message is the empty message.
\<close>

datatype 'a fetched = Rejected string | Resolved 'a

datatype 'a json_result = JsonError string | Json 'a

record 'a response =
  ok :: bool
  status :: nat
  json :: "'a json_result"

text \<open>The geocoder's document: an array of matches, or anything that is no array.\<close>

record geo_match =
  match_lat :: jsv
  match_lon :: jsv
  display_name :: jsv

datatype geocode_data = NotArray | Matches "geo_match nullable list"

text \<open>The weather service's document. \<open>current_weather\<close> is \<open>None\<close> when missing or falsy.\<close>

record current_weather_json =
  cw_temperature :: jsv
  cw_windspeed :: jsv
  cw_winddirection :: jsv
  cw_weathercode :: jsv
  cw_time :: jsv

record weather_json =
  current_weather :: "current_weather_json option"

text \<open>
  The feature service's document. \<open>elements\<close> is \<open>None\<close> when it is no array. A feature
  has \<open>lat\<close> and \<open>lon\<close> of its own, or a \<open>center\<close> (\<open>None\<close> when missing, \<open>null\<close> or no
  object); its \<open>tags\<close> are \<open>None\<close> when missing.
\<close>

record center_json =
  center_lat :: jsv
  center_lon :: jsv

record element =
  el_tags :: "tags nullable option"
  el_id :: jsv
  el_lat :: jsv
  el_lon :: jsv
  el_center :: "center_json option"

record poi_data =
  elements :: "element nullable list option"

text \<open>The translation service's document.\<close>

record translate_json =
  translated_text :: jsv
  detail :: jsv
  error :: jsv

text \<open>
  The world one call of a handler runs in: the engine, the configured base address of
  the translation service (\<open>None\<close> when the setting is no string), and what each
  service replies. The engine is its arithmetic and \<open>engine_order\<close>, the order in which
  it leaves an array that it sorts with a comparator that is not consistent (see
  \<open>js_sort\<close>). When both requests of the fan-out reject, \<open>weather_rejects_first\<close> says
  which rejection \<open>Promise.all\<close> reports.
\<close>

record env =
  engine_arith :: arith
  engine_order :: "poi list \<Rightarrow> poi \<Rightarrow> poi \<Rightarrow> bool"
  VITE_TRANSLATION_API_BASE_URL :: "string option"
  geocode_reply :: "geocode_data response fetched"
  weather_reply :: "weather_json nullable response fetched"
  poi_reply :: "poi_data nullable response fetched"
  weather_rejects_first :: bool
  translate_reply :: "translate_json nullable response fetched"

section \<open>Normalizing the features\<close>

text \<open>
  The message of the TypeError the engine throws when the program reads a property of
  \<open>null\<close>; its wording depends on the engine and is never empty.
\<close>

definition TYPE_ERROR :: string where
  "TYPE_ERROR = ''Cannot read properties of null''"

text \<open>\<open>center?.lat\<close> and \<open>center?.lon\<close>.\<close>

fun center_prop :: "(center_json \<Rightarrow> jsv) \<Rightarrow> center_json option \<Rightarrow> jsv" where
  "center_prop f None = Undefined"
| "center_prop f (Some c) = f c"

definition resultLat :: "element \<Rightarrow> jsv" where
  "resultLat e = (if is_number (el_lat e) then el_lat e else center_prop center_lat (el_center e))"

definition resultLon :: "element \<Rightarrow> jsv" where
  "resultLon e = (if is_number (el_lon e) then el_lon e else center_prop center_lon (el_center e))"

text \<open>
  The callback of \<open>map\<close>: \<open>Inl\<close> is the message of a thrown error, \<open>Inr None\<close> is
  \<open>return null\<close>.
\<close>

definition normalize :: "arith \<Rightarrow> jsnum \<Rightarrow> jsnum \<Rightarrow> element nullable \<Rightarrow> string + poi option" where
  "normalize A latitude longitude el =
     (case el of
        JNull \<Rightarrow> Inl TYPE_ERROR
      | JObj e \<Rightarrow>
          (case (resultLat e, resultLon e) of
             (JNum rlat, JNum rlon) \<Rightarrow>
               (case el_tags e of
                  Some JNull \<Rightarrow> Inl TYPE_ERROR
                | t \<Rightarrow>
                    let tags = (case t of Some (JObj tg) \<Rightarrow> tg | _ \<Rightarrow> Map.empty) in
                    Inr (Some \<lparr>poi_id = el_id e,
                               poi_name = buildPoiLabel tags,
                               poi_category = buildCategory tags,
                               poi_lat = rlat,
                               poi_lon = rlon,
                               poi_distance = haversineDistance A latitude longitude rlat rlon,
                               poi_address = address_of tags\<rparr>))
           | _ \<Rightarrow> Inr None))"

text \<open>\<open>Array.prototype.map\<close> with a callback that may throw: the first error ends it.\<close>

fun map_throwing :: "('a \<Rightarrow> string + 'b) \<Rightarrow> 'a list \<Rightarrow> string + 'b list" where
  "map_throwing f [] = Inr []"
| "map_throwing f (x # xs) =
     (case f x of
        Inl err \<Rightarrow> Inl err
      | Inr y \<Rightarrow> (case map_throwing f xs of Inl err \<Rightarrow> Inl err | Inr ys \<Rightarrow> Inr (y # ys)))"

text \<open>\<open>filter(Boolean)\<close> on a list of records and \<open>null\<close>s.\<close>

fun filter_Boolean :: "'a option list \<Rightarrow> 'a list" where
  "filter_Boolean [] = []"
| "filter_Boolean (None # xs) = filter_Boolean xs"
| "filter_Boolean (Some x # xs) = x # filter_Boolean xs"

text \<open>
  \<open>Array.prototype.sort\<close> with a comparator. \<open>cf\<close> is the sign of the comparator's
  result, and a comparator is consistent on the elements of an array when none of its
  results is NaN and its signs are those of a total preorder: reflexive, antisymmetric
  and transitive. The sort is stable, so for a consistent comparator the result is the
  one a stable insertion sort gives: \<open>b\<close> goes before \<open>a\<close> only when the comparator's
  result on \<open>(a, b)\<close> is greater than 0. For any other comparator the order of the result
  is up to the engine: it is still the same elements, arranged here by the relation
  \<open>choice\<close>, which is the engine's.
\<close>

fun insert_sorted :: "('a \<Rightarrow> 'a \<Rightarrow> bool) \<Rightarrow> 'a \<Rightarrow> 'a list \<Rightarrow> 'a list" where
  "insert_sorted after x [] = [x]"
| "insert_sorted after x (y # ys) =
     (if after x y then y # insert_sorted after x ys else x # y # ys)"

definition cf :: "('a \<Rightarrow> 'a \<Rightarrow> jsnum) \<Rightarrow> 'a \<Rightarrow> 'a \<Rightarrow> int" where
  "cf cmp a b = (if js_lt (cmp a b) (Num 0) then - 1 else if js_gt (cmp a b) (Num 0) then 1 else 0)"

definition consistent :: "('a \<Rightarrow> 'a \<Rightarrow> jsnum) \<Rightarrow> 'a list \<Rightarrow> bool" where
  "consistent cmp xs =
     list_all (\<lambda>a. cf cmp a a = 0 \<and>
       list_all (\<lambda>b. cmp a b \<noteq> NaN \<and> cf cmp b a = - cf cmp a b \<and>
         list_all (\<lambda>c. if cf cmp a b = cf cmp b c then cf cmp a c = cf cmp a b else True) xs) xs) xs"

definition js_sort :: "('a list \<Rightarrow> 'a \<Rightarrow> 'a \<Rightarrow> bool) \<Rightarrow> ('a \<Rightarrow> 'a \<Rightarrow> jsnum) \<Rightarrow> 'a list \<Rightarrow> 'a list" where
  "js_sort choice cmp xs =
     (if consistent cmp xs then foldr (insert_sorted (\<lambda>a b. js_gt (cmp a b) (Num 0))) xs []
      else foldr (insert_sorted (choice xs)) xs [])"

text \<open>\<open>(a, b) => a.distance - b.distance\<close>.\<close>

definition by_distance :: "arith \<Rightarrow> poi \<Rightarrow> poi \<Rightarrow> jsnum" where
  "by_distance A a b = js_sub A (poi_distance a) (poi_distance b)"

text \<open>The value of \<open>formatted\<close>: map, filter, sort, slice.\<close>

definition formatted :: "env \<Rightarrow> jsnum \<Rightarrow> jsnum \<Rightarrow> element nullable list \<Rightarrow> string + poi list" where
  "formatted w latitude longitude els =
     (case map_throwing (normalize (engine_arith w) latitude longitude) els of
        Inl err \<Rightarrow> Inl err
      | Inr ys \<Rightarrow>
          Inr (take 5 (js_sort (engine_order w) (by_distance (engine_arith w)) (filter_Boolean ys))))"

section \<open>Search\<close>

text \<open>
  A block of statements gives the events it produced and, when it threw, the message of
  the error. \<open>and_then\<close> runs a second block after a first that did not throw.
\<close>

type_synonym block = "event list \<times> string option"

definition throw :: "string \<Rightarrow> block" where
  "throw msg = ([], Some msg)"

definition emit :: "event list \<Rightarrow> block" where
  "emit evs = (evs, None)"

definition and_then :: "block \<Rightarrow> block \<Rightarrow> block" where
  "and_then a b = (case snd a of Some msg \<Rightarrow> a | None \<Rightarrow> (fst a @ fst b, snd b))"

text \<open>Lines 209 to 225: the weather response.\<close>

definition weather_step :: "weather_json nullable response \<Rightarrow> block" where
  "weather_step weatherResponse =
     (if ok weatherResponse then
        (case json weatherResponse of
           JsonError msg \<Rightarrow> throw msg
         | Json weatherJson \<Rightarrow>
             (case weatherJson of
                JObj w \<Rightarrow>
                  (case current_weather w of
                     Some cw \<Rightarrow>
                       emit [SetWeatherInfo (Some \<lparr>temperature = cw_temperature cw,
                                                    windSpeed = cw_windspeed cw,
                                                    windDirection = cw_winddirection cw,
                                                    description = describeWeatherCode (cw_weathercode cw),
                                                    observationTime = cw_time cw\<rparr>)]
                   | None \<Rightarrow> emit [SetWeatherInfo None])
              | JNull \<Rightarrow> emit [SetWeatherInfo None]))
      else emit [SetWeatherInfo None])"

text \<open>Lines 227 to 260: the features.\<close>

definition poi_step :: "env \<Rightarrow> jsnum \<Rightarrow> jsnum \<Rightarrow> poi_data nullable response \<Rightarrow> block" where
  "poi_step w latitude longitude poiResponse =
     (case json poiResponse of
        JsonError msg \<Rightarrow> throw msg
      | Json JNull \<Rightarrow> throw TYPE_ERROR
      | Json (JObj poiData) \<Rightarrow>
          (case formatted w latitude longitude (case elements poiData of Some es \<Rightarrow> es | None \<Rightarrow> []) of
             Inl err \<Rightarrow> throw err
           | Inr fs \<Rightarrow>
               emit ((if fs = []
                      then [SetErrorMessage ''No notable places found within 2km of this location.'']
                      else []) @ [SetPois fs])))"

text \<open>Lines 177 to 260: the two requests, joined by \<open>Promise.all\<close>, and what follows.\<close>

definition fan_out :: "env \<Rightarrow> jsnum \<Rightarrow> jsnum \<Rightarrow> block" where
  "fan_out w latitude longitude =
     and_then (emit [Fetch (WeatherRequest latitude longitude), Fetch (OverpassRequest latitude longitude)])
       (case (weather_reply w, poi_reply w) of
          (Rejected m1, Rejected m2) \<Rightarrow> throw (if weather_rejects_first w then m1 else m2)
        | (Rejected m1, Resolved poiResponse) \<Rightarrow> throw m1
        | (Resolved weatherResponse, Rejected m2) \<Rightarrow> throw m2
        | (Resolved weatherResponse, Resolved poiResponse) \<Rightarrow>
            if ok poiResponse then
              and_then (weather_step weatherResponse) (poi_step w latitude longitude poiResponse)
            else throw ''Unable to fetch nearby points of interest.'')"

text \<open>Lines 149 to 260: the body of \<open>try\<close>.\<close>

definition search_body :: "env \<Rightarrow> string \<Rightarrow> block" where
  "search_body w trimmed =
     and_then (emit [Fetch (GeocodeRequest trimmed)])
       (case geocode_reply w of
          Rejected msg \<Rightarrow> throw msg
        | Resolved geocodeResponse \<Rightarrow>
            if ok geocodeResponse then
              (case json geocodeResponse of
                 JsonError msg \<Rightarrow> throw msg
               | Json NotArray \<Rightarrow> throw ''No matching location found in Vietnam.''
               | Json (Matches []) \<Rightarrow> throw ''No matching location found in Vietnam.''
               | Json (Matches (JNull # rest)) \<Rightarrow> throw TYPE_ERROR
               | Json (Matches (JObj m # rest)) \<Rightarrow>
                   (let latitude = parseFloat (engine_arith w) (match_lat m);
                        longitude = parseFloat (engine_arith w) (match_lon m)
                    in and_then
                         (emit [SetSelectedPlace \<lparr>place_lat = latitude, place_lon = longitude,
                                                  place_label = display_name m\<rparr>])
                         (fan_out w latitude longitude)))
            else throw ''Unable to locate the place, please try again.'')"

text \<open>
  \<open>handleSearch\<close>. The sign-in message is Vietnamese in the source; its diacritics are
  left out here.
\<close>

definition handleSearch :: "env \<Rightarrow> app_state \<Rightarrow> string \<Rightarrow> event list" where
  "handleSearch w s userQuery =
     (if currentUser s = None then
        [SetErrorMessage ''Vui long dang nhap de tim kiem dia diem.'']
      else if trim userQuery = [] then
        [SetErrorMessage ''Please enter a location name.'']
      else
        [SetIsLoading True, SetErrorMessage [], SetPois [], SetWeatherInfo None]
        @ (case search_body w (trim userQuery) of
             (evs, None) \<Rightarrow> evs
           | (evs, Some msg) \<Rightarrow>
               evs @ [SetErrorMessage
                        (if msg = [] then ''Something went wrong, please try again.'' else msg)])
        @ [SetIsLoading False])"

text \<open>The state after a search that started in state \<open>s\<close>.\<close>

definition search :: "env \<Rightarrow> app_state \<Rightarrow> string \<Rightarrow> app_state" where
  "search w s userQuery = run s (handleSearch w s userQuery)"

section \<open>Translation\<close>

definition normalizeBaseUrl :: "string option \<Rightarrow> string" where
  "normalizeBaseUrl rawUrl =
     (case rawUrl of
        None \<Rightarrow> []
      | Some url \<Rightarrow> if url \<noteq> [] \<and> last url = CHR ''/'' then butlast url else url)"

definition TRANSLATION_ENDPOINT :: "env \<Rightarrow> string" where
  "TRANSLATION_ENDPOINT w =
     (if normalizeBaseUrl (VITE_TRANSLATION_API_BASE_URL w) \<noteq> []
      then normalizeBaseUrl (VITE_TRANSLATION_API_BASE_URL w) @ ''/translate''
      else [])"

text \<open>
  Lines 303 to 318: the detail of a response that is not a success, empty when its body
  is no JSON document or has no such field. Reading the body as text is taken to succeed.
\<close>

definition error_detail :: "translate_json nullable json_result \<Rightarrow> string" where
  "error_detail parsed =
     (case parsed of
        Json (JObj p) \<Rightarrow>
          (case detail p of
             JStr d \<Rightarrow> d
           | _ \<Rightarrow> (case error p of JStr e \<Rightarrow> e | _ \<Rightarrow> []))
      | _ \<Rightarrow> [])"

definition translatedText :: "translate_json nullable \<Rightarrow> string" where
  "translatedText data =
     (case data of
        JObj d \<Rightarrow> (case translated_text d of JStr t \<Rightarrow> trim t | _ \<Rightarrow> [])
      | JNull \<Rightarrow> [])"

definition translate_body :: "env \<Rightarrow> string \<Rightarrow> block" where
  "translate_body w trimmed =
     and_then (emit [Fetch (TranslateRequest (TRANSLATION_ENDPOINT w) trimmed)])
       (case translate_reply w of
          Rejected msg \<Rightarrow> throw msg
        | Resolved response \<Rightarrow>
            if ok response then
              (case json response of
                 JsonError msg \<Rightarrow> throw msg
               | Json data \<Rightarrow>
                   if translatedText data = []
                   then throw ''Translation service did not return any translated text.''
                   else emit [SetTranslationResult (translatedText data)])
            else
              throw (if error_detail (json response) \<noteq> [] then error_detail (json response)
                     else ''Translation service returned status '' @ show_nat (status response) @ ''.''))"

text \<open>
  \<open>handleTranslate\<close>. The sign-in message is Vietnamese in the source; its diacritics
  are left out here.
\<close>

definition handleTranslate :: "env \<Rightarrow> app_state \<Rightarrow> string \<Rightarrow> event list" where
  "handleTranslate w s englishText =
     (if currentUser s = None then
        [SetTranslationError ''Ban can dang nhap truoc khi su dung cong cu dich.'']
      else if trim englishText = [] then
        [SetTranslationError ''Please enter an English sentence to translate.'',
         SetTranslationResult []]
      else if TRANSLATION_ENDPOINT w = [] then
        [SetTranslationError
           ''Translation service is not configured. Please set VITE_TRANSLATION_API_BASE_URL.'',
         SetTranslationResult []]
      else
        [SetIsTranslating True, SetTranslationError [], SetTranslationResult []]
        @ (case translate_body w (trim englishText) of
             (evs, None) \<Rightarrow> evs
           | (evs, Some msg) \<Rightarrow>
               evs @ [SetTranslationError
                        (if msg = [] then ''Unable to translate this sentence.'' else msg)])
        @ [SetIsTranslating False])"

definition translate :: "env \<Rightarrow> app_state \<Rightarrow> string \<Rightarrow> app_state" where
  "translate w s englishText = run s (handleTranslate w s englishText)"

section \<open>Readings of the specification\<close>

text \<open>
  The first of the listed fields that the dictionary has at all, as the specification
  words the two fallback chains, and the first of them whose value is not empty.
\<close>

fun first_present :: "tags \<Rightarrow> string list \<Rightarrow> (string \<times> string) option" where
  "first_present tags [] = None"
| "first_present tags (k # ks) =
     (case tags k of Some v \<Rightarrow> Some (k, v) | None \<Rightarrow> first_present tags ks)"

fun first_nonempty :: "tags \<Rightarrow> string list \<Rightarrow> (string \<times> string) option" where
  "first_nonempty tags [] = None"
| "first_nonempty tags (k # ks) =
     (case tags k of
        Some v \<Rightarrow> if v = [] then first_nonempty tags ks else Some (k, v)
      | None \<Rightarrow> first_nonempty tags ks)"

text \<open>The name and the category as the specification states them: the first present field.\<close>

definition label_as_specified :: "tags \<Rightarrow> string" where
  "label_as_specified tags =
     (case first_present tags [''name'', ''name:vi'', ''name:en'', ''amenity'', ''tourism'', ''leisure''] of
        Some (k, v) \<Rightarrow> v
      | None \<Rightarrow> ''Point of interest'')"

definition category_as_specified :: "tags \<Rightarrow> string" where
  "category_as_specified tags =
     (case first_present tags [''tourism'', ''amenity'', ''historic'', ''leisure'', ''shop''] of
        Some (k, v) \<Rightarrow> k @ '': '' @ v
      | None \<Rightarrow> ''Other'')"

text \<open>A well-formed feature is an object whose tags, when it has any, are an object.\<close>

fun well_formed_feature :: "element nullable \<Rightarrow> bool" where
  "well_formed_feature JNull = False"
| "well_formed_feature (JObj e) = (el_tags e \<noteq> Some JNull)"

text \<open>
  The order of a list by non-decreasing distance: \<open><=\<close> on the distances, which is false
  when one of them is NaN.
\<close>

definition distance_le :: "poi \<Rightarrow> poi \<Rightarrow> bool" where
  "distance_le a b = js_le (poi_distance a) (poi_distance b)"

text \<open>Every distance that the normalizer computes for the features is a finite number.\<close>

definition distances_finite :: "arith \<Rightarrow> jsnum \<Rightarrow> jsnum \<Rightarrow> element nullable list \<Rightarrow> bool" where
  "distances_finite A latitude longitude els =
     list_all (\<lambda>el. case normalize A latitude longitude el of
                       Inr (Some p) \<Rightarrow> is_finite (poi_distance p)
                     | _ \<Rightarrow> True) els"

text \<open>The message of the error that a computation threw, if it threw.\<close>

fun thrown :: "string + 'a \<Rightarrow> string option" where
  "thrown (Inl err) = Some err"
| "thrown (Inr v) = None"


text \<open>
  The translated text of a success response is lacking when the document is \<open>null\<close>, or
  the field is missing, is no string, or is a string that trims to nothing.
\<close>

definition lacks_translation :: "translate_json nullable \<Rightarrow> bool" where
  "lacks_translation data =
     (case data of
        JNull \<Rightarrow> True
      | JObj d \<Rightarrow> (case translated_text d of JStr t \<Rightarrow> trim t = [] | _ \<Rightarrow> True))"

text \<open>The setters of the place, of the results (POIs and error message) and of the weather.\<close>

fun is_place_event :: "event \<Rightarrow> bool" where
  "is_place_event (SetSelectedPlace p) = True"
| "is_place_event _ = False"

fun is_result_event :: "event \<Rightarrow> bool" where
  "is_result_event (SetPois ps) = True"
| "is_result_event (SetErrorMessage m) = True"
| "is_result_event _ = False"

fun is_weather_event :: "event \<Rightarrow> bool" where
  "is_weather_event (SetWeatherInfo x) = True"
| "is_weather_event _ = False"

section \<open>Example inputs\<close>

definition signed_in :: app_state where
  "signed_in =
     \<lparr>currentUser = Some ''student@example.com'', isLoading = False, errorMessage = [],
      selectedPlace = None, pois = [], weatherInfo = None,
      isTranslating = False, translationResult = [], translationError = []\<rparr>"

definition cafe_node :: element where
  "cafe_node =
     \<lparr>el_tags = Some (JObj [''amenity'' \<mapsto> ''cafe'']), el_id = JNum (Num 101),
      el_lat = JNum (Num 21.515625), el_lon = JNum (Num 105.75), el_center = None\<rparr>"

definition museum_way :: element where
  "museum_way =
     \<lparr>el_tags = Some (JObj [''tourism'' \<mapsto> ''museum'', ''name'' \<mapsto> ''Bao tang'']), el_id = JNum (Num 102),
      el_lat = Undefined, el_lon = Undefined,
      el_center = Some \<lparr>center_lat = JNum (Num 21.5), center_lon = JNum (Num 105.75)\<rparr>\<rparr>"

definition no_coordinate :: element where
  "no_coordinate =
     \<lparr>el_tags = Some (JObj [''amenity'' \<mapsto> ''bank'']), el_id = JNum (Num 103),
      el_lat = Undefined, el_lon = Undefined, el_center = None\<rparr>"

text \<open>
  A feature whose latitude numeral is beyond the range of 64-bit floats, as in
  \<open>{"id": 104, "lat": 1e400, "lon": 105.75, "tags": {"amenity": "bank"}}\<close>: \<open>JSON.parse\<close>
  reads it as \<open>Infinity\<close>.
\<close>

definition far_node :: element where
  "far_node =
     \<lparr>el_tags = Some (JObj [''amenity'' \<mapsto> ''bank'']), el_id = JNum (Num 104),
      el_lat = JNum PInf, el_lon = JNum (Num 105.75), el_center = None\<rparr>"

text \<open>
  The records the normalizer makes of the features that have a coordinate, for the
  search center \<open>(21.5, 105.75)\<close>.
\<close>

definition museum_poi :: poi where
  "museum_poi =
     \<lparr>poi_id = JNum (Num 102), poi_name = ''Bao tang'', poi_category = ''tourism: museum'',
      poi_lat = Num 21.5, poi_lon = Num 105.75, poi_distance = Num 0, poi_address = None\<rparr>"

definition cafe_poi :: poi where
  "cafe_poi =
     \<lparr>poi_id = JNum (Num 101), poi_name = ''cafe'', poi_category = ''amenity: cafe'',
      poi_lat = Num 21.515625, poi_lon = Num 105.75,
      poi_distance = haversineDistance unrounded (Num 21.5) (Num 105.75) (Num 21.515625) (Num 105.75),
      poi_address = None\<rparr>"

definition far_poi :: poi where
  "far_poi =
     \<lparr>poi_id = JNum (Num 104), poi_name = ''bank'', poi_category = ''amenity: bank'',
      poi_lat = PInf, poi_lon = Num 105.75, poi_distance = NaN, poi_address = None\<rparr>"

definition geocode_hanoi :: "geocode_data response fetched" where
  "geocode_hanoi =
     Resolved \<lparr>ok = True, status = 200,
               json = Json (Matches [JObj \<lparr>match_lat = JStr ''21.5'', match_lon = JStr ''105.75'',
                                            display_name = JStr ''Hanoi, Vietnam''\<rparr>])\<rparr>"

definition weather_overcast :: "weather_json nullable response fetched" where
  "weather_overcast =
     Resolved \<lparr>ok = True, status = 200,
               json = Json (JObj \<lparr>current_weather =
                        Some \<lparr>cw_temperature = JNum (Num 29), cw_windspeed = JNum (Num 7),
                              cw_winddirection = JNum (Num 120), cw_weathercode = JNum (Num 3),
                              cw_time = JStr ''2024-05-01T10:00''\<rparr>\<rparr>)\<rparr>"

definition features_response :: "poi_data nullable response" where
  "features_response =
     \<lparr>ok = True, status = 200,
      json = Json (JObj \<lparr>elements = Some [JObj no_coordinate, JObj museum_way, JObj cafe_node]\<rparr>)\<rparr>"

text \<open>The feature service's document holds the feature with the infinite latitude.\<close>

definition overflow_response :: "poi_data nullable response" where
  "overflow_response =
     \<lparr>ok = True, status = 200,
      json = Json (JObj \<lparr>elements = Some [JObj cafe_node, JObj far_node, JObj museum_way]\<rparr>)\<rparr>"

definition features_found :: "poi_data nullable response fetched" where
  "features_found = Resolved features_response"

text \<open>
  All three services of a search answer. In this and the following worlds the engine
  computes without rounding and leaves an array that it cannot order as it is.
\<close>

definition all_services_answer :: env where
  "all_services_answer =
     \<lparr>engine_arith = unrounded,
      engine_order = (\<lambda>xs a b. False),
      VITE_TRANSLATION_API_BASE_URL = None,
      geocode_reply = geocode_hanoi,
      weather_reply = weather_overcast,
      poi_reply = features_found,
      weather_rejects_first = True,
      translate_reply = Rejected ''Failed to fetch''\<rparr>"

text \<open>No service can be reached and the translation service is not configured.\<close>

definition no_reply :: env where
  "no_reply =
     \<lparr>engine_arith = unrounded,
      engine_order = (\<lambda>xs a b. False),
      VITE_TRANSLATION_API_BASE_URL = None,
      geocode_reply = Rejected ''Failed to fetch'',
      weather_reply = Rejected ''Failed to fetch'',
      poi_reply = Rejected ''Failed to fetch'',
      weather_rejects_first = True,
      translate_reply = Rejected ''Failed to fetch''\<rparr>"

text \<open>The translation service answers 200 with \<open>{"translated_text": "   "}\<close>.\<close>

definition blank_translation :: env where
  "blank_translation =
     \<lparr>engine_arith = unrounded,
      engine_order = (\<lambda>xs a b. False),
      VITE_TRANSLATION_API_BASE_URL = Some ''https://translate.example/'',
      geocode_reply = Rejected ''Failed to fetch'',
      weather_reply = Rejected ''Failed to fetch'',
      poi_reply = Rejected ''Failed to fetch'',
      weather_rejects_first = True,
      translate_reply =
        Resolved \<lparr>ok = True, status = 200,
                  json = Json (JObj \<lparr>translated_text = JStr ''   '', detail = Undefined,
                                       error = Undefined\<rparr>)\<rparr>\<rparr>"

text \<open>The feature service answers 200 with a body that is no JSON document.\<close>

definition unreadable_features :: env where
  "unreadable_features =
     \<lparr>engine_arith = unrounded,
      engine_order = (\<lambda>xs a b. False),
      VITE_TRANSLATION_API_BASE_URL = None,
      geocode_reply = geocode_hanoi,
      weather_reply = weather_overcast,
      poi_reply = Resolved \<lparr>ok = True, status = 200,
                             json = JsonError ''Unexpected token < in JSON at position 0''\<rparr>,
      weather_rejects_first = True,
      translate_reply = Rejected ''Failed to fetch''\<rparr>"

text \<open>The weather service cannot be reached; the other two services answer.\<close>

definition weather_unreachable :: env where
  "weather_unreachable =
     \<lparr>engine_arith = unrounded,
      engine_order = (\<lambda>xs a b. False),
      VITE_TRANSLATION_API_BASE_URL = None,
      geocode_reply = geocode_hanoi,
      weather_reply = Rejected ''Failed to fetch'',
      poi_reply = features_found,
      weather_rejects_first = True,
      translate_reply = Rejected ''Failed to fetch''\<rparr>"

text \<open>The geocoder's first match has the latitude \<open>"abc"\<close>; both other services refuse.\<close>

definition malformed_latitude :: env where
  "malformed_latitude =
     \<lparr>engine_arith = unrounded,
      engine_order = (\<lambda>xs a b. False),
      VITE_TRANSLATION_API_BASE_URL = None,
      geocode_reply =
        Resolved \<lparr>ok = True, status = 200,
                  json = Json (Matches [JObj \<lparr>match_lat = JStr ''abc'', match_lon = JStr ''105.75'',
                                               display_name = JStr ''Hanoi, Vietnam''\<rparr>])\<rparr>,
      weather_reply = Resolved \<lparr>ok = False, status = 400, json = JsonError ''Unexpected end of JSON input''\<rparr>,
      poi_reply = Resolved \<lparr>ok = False, status = 400, json = JsonError ''Unexpected end of JSON input''\<rparr>,
      weather_rejects_first = True,
      translate_reply = Rejected ''Failed to fetch''\<rparr>"

section \<open>Properties of the distance\<close>

subsection \<open>In exact arithmetic\<close>

lemma sin_half_sq: "(sin (x / 2))\<^sup>2 = (1 - cos x) / 2" for x :: real
  using cos_double_sin [of "x / 2"] by simp

lemma lin_lower:
  fixes u v c x :: real
  assumes "(1 - u) / 2 + c = (1 + v) / 2" and "0 \<le> (1 + v) / 2" and "0 \<le> (1 - u) / 2"
    and "min 0 c \<le> x"
  shows "0 \<le> (1 - u) / 2 + x"
proof (cases "0 \<le> c")
  case True
  then have "0 \<le> x" using assms(4) by simp
  then show ?thesis using assms(3) by linarith
next
  case False
  then have "c \<le> x" using assms(4) by simp
  then show ?thesis using assms(1,2) by linarith
qed

lemma lin_upper:
  fixes u v c x :: real
  assumes "(1 - u) / 2 + c = (1 + v) / 2" and "(1 + v) / 2 \<le> 1" and "(1 - u) / 2 \<le> 1"
    and "x \<le> max 0 c"
  shows "(1 - u) / 2 + x \<le> 1"
proof (cases "0 \<le> c")
  case True
  then have "x \<le> c" using assms(4) by simp
  then show ?thesis using assms(1,2) by linarith
next
  case False
  then have "x \<le> 0" using assms(4) by simp
  then show ?thesis using assms(3) by linarith
qed

text \<open>
  The haversine term lies between 0 and 1 for all angles, also for latitudes outside
  the range of a sphere, so neither square root of the formula is taken of a negative
  number.
\<close>

lemma hav_core_bounds:
  fixes p q s :: real
  assumes "0 \<le> s" and "s \<le> 1"
  shows "0 \<le> (sin ((q - p) / 2))\<^sup>2 + cos p * cos q * s"
    and "(sin ((q - p) / 2))\<^sup>2 + cos p * cos q * s \<le> 1"
proof -
  have cd: "cos (q - p) = cos q * cos p + sin q * sin p" by (rule cos_diff)
  have ca: "cos (q + p) = cos q * cos p - sin q * sin p" by (rule cos_add)
  have sum: "(1 - cos (q - p)) / 2 + cos p * cos q = (1 + cos (q + p)) / 2"
    unfolding cd ca by (simp add: field_simps)
  have lo: "0 \<le> (1 + cos (q + p)) / 2"
    using cos_ge_minus_one [of "q + p"] by argo
  have hi: "(1 + cos (q + p)) / 2 \<le> 1"
    using cos_le_one [of "q + p"] by argo
  have lo': "0 \<le> (1 - cos (q - p)) / 2"
    using cos_le_one [of "q - p"] by argo
  have hi': "(1 - cos (q - p)) / 2 \<le> 1"
    using cos_ge_minus_one [of "q - p"] by argo
  define c where "c = cos p * cos q"
  have between: "min 0 c \<le> c * s \<and> c * s \<le> max 0 c"
  proof (cases "0 \<le> c")
    case True
    have "0 \<le> c * s" using True assms(1) by (rule mult_nonneg_nonneg)
    moreover have "c * s \<le> c * 1" using assms(2) True by (rule mult_left_mono)
    ultimately show ?thesis using True by simp
  next
    case False
    then have neg: "c \<le> 0" by simp
    have "c * s \<le> 0" using neg assms(1) by (rule mult_nonpos_nonneg)
    moreover have "c * 1 \<le> c * s" using assms(2) neg by (rule mult_left_mono_neg)
    ultimately show ?thesis using neg by simp
  qed
  have sum': "(1 - cos (q - p)) / 2 + c = (1 + cos (q + p)) / 2"
    using sum by (simp add: c_def)
  show "0 \<le> (sin ((q - p) / 2))\<^sup>2 + cos p * cos q * s"
    unfolding sin_half_sq c_def [symmetric]
    using sum' lo lo' conjunct1 [OF between] by (rule lin_lower)
  show "(sin ((q - p) / 2))\<^sup>2 + cos p * cos q * s \<le> 1"
    unfolding sin_half_sq c_def [symmetric]
    using sum' hi hi' conjunct2 [OF between] by (rule lin_upper)
qed

lemma hav_a_bounds: "0 \<le> hav_a lat1 lon1 lat2 lon2" "hav_a lat1 lon1 lat2 lon2 \<le> 1"
proof -
  have d: "(lat2 - lat1) * pi / 180 / 2 = (lat2 * pi / 180 - lat1 * pi / 180) / 2"
    by (simp add: left_diff_distrib diff_divide_distrib)
  have s0: "0 \<le> (sin ((lon2 - lon1) * pi / 180 / 2))\<^sup>2" by simp
  have s1: "(sin ((lon2 - lon1) * pi / 180 / 2))\<^sup>2 \<le> 1"
    unfolding abs_square_le_1 by (rule abs_sin_le_one)
  show "0 \<le> hav_a lat1 lon1 lat2 lon2"
    unfolding hav_a_def d by (rule hav_core_bounds(1) [OF s0 s1])
  show "hav_a lat1 lon1 lat2 lon2 \<le> 1"
    unfolding hav_a_def d by (rule hav_core_bounds(2) [OF s0 s1])
qed

lemma hav_a_sym: "hav_a lat1 lon1 lat2 lon2 = hav_a lat2 lon2 lat1 lon1"
proof -
  have neg: "(y - x) * pi / 180 / 2 = - ((x - y) * pi / 180 / 2)" for x y :: real
    by (simp add: left_diff_distrib diff_divide_distrib)
  have 1: "sin ((lat2 - lat1) * pi / 180 / 2) = - sin ((lat1 - lat2) * pi / 180 / 2)"
    unfolding neg [of lat2 lat1] by (rule sin_minus)
  have 2: "sin ((lon2 - lon1) * pi / 180 / 2) = - sin ((lon1 - lon2) * pi / 180 / 2)"
    unfolding neg [of lon2 lon1] by (rule sin_minus)
  show ?thesis
    unfolding hav_a_def 1 2 by (simp add: mult.commute)
qed

lemma hav_a_same: "hav_a lat lon lat lon = 0"
  by (simp add: hav_a_def)

lemma unrounded_simps [simp]:
  "fl_add unrounded x y = Num (x + y)"
  "fl_sub unrounded x y = Num (x - y)"
  "fl_mul unrounded x y = Num (x * y)"
  "fl_div unrounded x y = Num (x / y)"
  "fl_pow2 unrounded x = Num (x ^ 2)"
  "fl_sqrt unrounded x = Num (sqrt x)"
  "fl_sin unrounded x = Num (sin x)"
  "fl_cos unrounded x = Num (cos x)"
  "fl_atan2 unrounded y x = Num (atan2 y x)"
  "fl_PI unrounded = pi"
  "fl_round unrounded x = Num x"
  by (simp_all add: unrounded_def)

lemma sub_keeps_sign_unrounded: "sub_keeps_sign unrounded"
  by (simp add: sub_keeps_sign_def js_gt_def)

text \<open>
  Without rounding the distance on finite arguments is a finite number, given by the
  formula.
\<close>

lemma haversineDistance_finite:
  "haversineDistance unrounded (Num lat1) (Num lon1) (Num lat2) (Num lon2) =
     Num (6371000 * (2 * atan2 (sqrt (hav_a lat1 lon1 lat2 lon2))
                               (sqrt (1 - hav_a lat1 lon1 lat2 lon2))))"
proof -
  have a: "js_add unrounded
             (js_pow2 unrounded (js_sin unrounded
                (js_div unrounded (toRad unrounded (js_sub unrounded (Num lat2) (Num lat1))) (Num 2))))
             (js_mul unrounded
                (js_mul unrounded (js_cos unrounded (toRad unrounded (Num lat1)))
                   (js_cos unrounded (toRad unrounded (Num lat2))))
                (js_pow2 unrounded (js_sin unrounded
                   (js_div unrounded (toRad unrounded (js_sub unrounded (Num lon2) (Num lon1))) (Num 2)))))
           = Num (hav_a lat1 lon1 lat2 lon2)"
    by (simp add: toRad_def hav_a_def)
  have lo: "\<not> hav_a lat1 lon1 lat2 lon2 < 0"
    using hav_a_bounds(1) [of lat1 lon1 lat2 lon2] by simp
  have hi: "\<not> 1 - hav_a lat1 lon1 lat2 lon2 < 0"
    using hav_a_bounds(2) [of lat1 lon1 lat2 lon2] by simp
  show ?thesis
    unfolding haversineDistance_def Let_def a using lo hi by simp
qed

text \<open>
  Without rounding the distance from a point to itself is 0, and the distance is
  symmetric in its two points.
\<close>

lemma haversineDistance_same:
  "haversineDistance unrounded (Num lat) (Num lon) (Num lat) (Num lon) = Num 0"
  by (simp add: haversineDistance_finite hav_a_same atan2_def)

lemma haversineDistance_sym:
  "haversineDistance unrounded (Num lat1) (Num lon1) (Num lat2) (Num lon2)
     = haversineDistance unrounded (Num lat2) (Num lon2) (Num lat1) (Num lon1)"
  unfolding haversineDistance_finite hav_a_sym [of lat1 lon1 lat2 lon2] ..

lemma atan2_nonneg: "0 \<le> y \<Longrightarrow> 0 \<le> x \<Longrightarrow> 0 \<le> atan2 y x"
  by (auto simp: atan2_def arctan_le_zero_iff not_less zero_le_arctan_iff)

lemma atan2_pos: "0 < y \<Longrightarrow> 0 \<le> x \<Longrightarrow> 0 < atan2 y x"
  by (auto simp: atan2_def zero_less_arctan_iff not_less)

lemma haversineDistance_nonneg:
  "\<exists>d. haversineDistance unrounded (Num lat1) (Num lon1) (Num lat2) (Num lon2) = Num d \<and> 0 \<le> d"
proof -
  have "0 \<le> atan2 (sqrt (hav_a lat1 lon1 lat2 lon2)) (sqrt (1 - hav_a lat1 lon1 lat2 lon2))"
    using hav_a_bounds [of lat1 lon1 lat2 lon2] by (intro atan2_nonneg) simp_all
  then show ?thesis
    by (simp add: haversineDistance_finite)
qed

text \<open>Two points on a meridian, less than 360 degrees of latitude apart, are apart.\<close>

lemma haversineDistance_meridian:
  assumes "lat1 < lat2" and "lat2 - lat1 < 360"
  shows "\<exists>d. haversineDistance unrounded (Num lat1) (Num lon) (Num lat2) (Num lon) = Num d \<and> 0 < d"
proof -
  define x where "x = (lat2 - lat1) * pi / 180 / 2"
  have "0 < x" using assms(1) by (simp add: x_def)
  moreover have "x < pi"
  proof -
    have "(lat2 - lat1) * pi < 360 * pi"
      using assms(2) pi_gt_zero by (simp only: mult_less_cancel_right_pos)
    then show ?thesis by (simp add: x_def)
  qed
  ultimately have "0 < sin x" by (rule sin_gt_zero)
  then have "0 < (sin x)\<^sup>2" by simp
  moreover have "hav_a lat1 lon lat2 lon = (sin x)\<^sup>2"
    by (simp add: hav_a_def x_def)
  ultimately have pos: "0 < hav_a lat1 lon lat2 lon" by simp
  have "0 < atan2 (sqrt (hav_a lat1 lon lat2 lon)) (sqrt (1 - hav_a lat1 lon lat2 lon))"
    using pos hav_a_bounds(2) [of lat1 lon lat2 lon] by (intro atan2_pos) simp_all
  then show ?thesis
    by (simp add: haversineDistance_finite)
qed

subsection \<open>In every arithmetic\<close>

lemma NaN_right [simp]:
  "js_add A a NaN = NaN" "js_sub A a NaN = NaN" "js_mul A a NaN = NaN" "js_div A a NaN = NaN"
  "js_atan2 A a NaN = NaN" "js_lt a NaN = False" "js_le a NaN = False"
  by (cases a; simp)+

lemma not_finite_sub:
  "\<not> is_finite a \<Longrightarrow> \<not> is_finite (js_sub A a b)"
  "\<not> is_finite b \<Longrightarrow> \<not> is_finite (js_sub A a b)"
  by (cases a; cases b; simp)+

lemma not_finite_toRad: "\<not> is_finite v \<Longrightarrow> \<not> is_finite (toRad A v)"
  by (cases v) (simp_all add: toRad_def inf_of_def)

lemma not_finite_half: "\<not> is_finite v \<Longrightarrow> \<not> is_finite (js_div A v (Num 2))"
  by (cases v) (simp_all add: inf_of_def)

lemma not_finite_sin_cos:
  "\<not> is_finite v \<Longrightarrow> js_sin A v = NaN"
  "\<not> is_finite v \<Longrightarrow> js_cos A v = NaN"
  by (cases v; simp)+

text \<open>
  When a coordinate of one of the two points is an infinity or NaN, the distance is NaN,
  whatever the arithmetic.
\<close>

lemma haversineDistance_not_finite:
  assumes "\<not> (is_finite lat1 \<and> is_finite lon1 \<and> is_finite lat2 \<and> is_finite lon2)"
  shows "haversineDistance A lat1 lon1 lat2 lon2 = NaN"
proof -
  have lat: "js_cos A (toRad A v) = NaN" if "\<not> is_finite v" for v
    using that by (intro not_finite_sin_cos not_finite_toRad)
  have lon: "js_sin A (js_div A (toRad A (js_sub A lon2 lon1)) (Num 2)) = NaN"
    if "\<not> is_finite lon1 \<or> \<not> is_finite lon2"
  proof -
    have "\<not> is_finite (js_sub A lon2 lon1)"
      using that not_finite_sub [of lon2 A lon1] not_finite_sub(2) [of lon1 A lon2] by blast
    then show ?thesis
      by (intro not_finite_sin_cos not_finite_half not_finite_toRad)
  qed
  have "js_cos A (toRad A lat1) = NaN \<or> js_cos A (toRad A lat2) = NaN
      \<or> js_sin A (js_div A (toRad A (js_sub A lon2 lon1)) (Num 2)) = NaN"
    using assms lat [of lat1] lat [of lat2] lon by blast
  then have "js_mul A (js_mul A (js_cos A (toRad A lat1)) (js_cos A (toRad A lat2)))
      (js_pow2 A (js_sin A (js_div A (toRad A (js_sub A lon2 lon1)) (Num 2)))) = NaN"
    by auto
  then show ?thesis
    by (simp add: haversineDistance_def Let_def)
qed

section \<open>Properties of the normalizer\<close>

lemma normalize_well_formed:
  "well_formed_feature el \<Longrightarrow> \<exists>r. normalize A latitude longitude el = Inr r"
  by (cases el) (auto simp: normalize_def Let_def split: jsv.splits option.splits nullable.splits)

lemma map_throwing_well_formed:
  "list_all well_formed_feature els \<Longrightarrow> \<exists>ys. map_throwing (normalize A latitude longitude) els = Inr ys"
proof (induction els)
  case Nil
  show ?case by simp
next
  case (Cons el els)
  then obtain r ys where "normalize A latitude longitude el = Inr r"
    and "map_throwing (normalize A latitude longitude) els = Inr ys"
    using normalize_well_formed [of el A latitude longitude] by auto
  then show ?case by simp
qed

lemma map_throwing_Inr:
  "map_throwing f xs = Inr ys \<Longrightarrow> y \<in> set ys \<Longrightarrow> \<exists>x \<in> set xs. f x = Inr y"
proof (induction xs arbitrary: ys)
  case Nil
  then show ?case by simp
next
  case (Cons x xs)
  then show ?case
    by (auto split: sum.splits)
qed

lemma map_throwing_set:
  "map_throwing f xs = Inr ys \<Longrightarrow> x \<in> set xs \<Longrightarrow> \<exists>y \<in> set ys. f x = Inr y"
proof (induction xs arbitrary: ys)
  case Nil
  then show ?case by simp
next
  case (Cons x' xs)
  then show ?case
    by (auto split: sum.splits)
qed

lemma set_filter_Boolean: "set (filter_Boolean ys) = {p. Some p \<in> set ys}"
  by (induction ys rule: filter_Boolean.induct) auto

lemma normalize_distance:
  "normalize A latitude longitude el = Inr (Some p) \<Longrightarrow>
     poi_distance p = haversineDistance A latitude longitude (poi_lat p) (poi_lon p)"
  by (auto simp: normalize_def Let_def split: nullable.splits jsv.splits option.splits)



text \<open>
  Whether the normalizer throws on a feature, and with which message, depends neither
  on the search center nor on the arithmetic.
\<close>

lemma normalize_thrown:
  "thrown (normalize A latitude longitude el) = thrown (normalize A' latitude' longitude' el)"
  by (simp add: normalize_def Let_def split: nullable.splits jsv.splits option.splits)

lemma map_throwing_thrown:
  assumes "\<And>x. thrown (f x) = thrown (g x)"
  shows "thrown (map_throwing f xs) = thrown (map_throwing g xs)"
proof (induction xs)
  case Nil
  show ?case by simp
next
  case (Cons x xs)
  show ?case
  proof (cases "f x")
    case (Inl err)
    then have "g x = Inl err" using assms [of x] by (cases "g x") simp_all
    with Inl show ?thesis by simp
  next
    case (Inr y)
    then obtain y' where "g x = Inr y'" using assms [of x] by (cases "g x") simp_all
    with Inr Cons show ?thesis
      by (cases "map_throwing f xs"; cases "map_throwing g xs") simp_all
  qed
qed

lemma map_throwing_length: "map_throwing f xs = Inr ys \<Longrightarrow> length ys = length xs"
  by (induction xs arbitrary: ys) (auto split: sum.splits)

section \<open>Properties of the sort\<close>

lemma set_insert_sorted: "set (insert_sorted after x xs) = insert x (set xs)"
  by (induction xs) auto

lemma length_insert_sorted: "length (insert_sorted after x xs) = Suc (length xs)"
  by (induction xs) auto

lemma set_foldr_insert_sorted: "set (foldr (insert_sorted after) xs []) = set xs"
  by (induction xs) (simp_all add: set_insert_sorted)

lemma length_foldr_insert_sorted: "length (foldr (insert_sorted after) xs []) = length xs"
  by (induction xs) (simp_all add: length_insert_sorted)

text \<open>Whatever the comparator, the sort gives the same elements.\<close>

lemma set_js_sort: "set (js_sort choice cmp xs) = set xs"
  by (simp add: js_sort_def set_foldr_insert_sorted)

lemma length_js_sort: "length (js_sort choice cmp xs) = length xs"
  by (simp add: js_sort_def length_foldr_insert_sorted)

text \<open>
  On records whose distances are finite numbers the comparator has the sign of the
  exact difference, so it is consistent.
\<close>

lemma by_distance_finite:
  assumes "sub_keeps_sign A" and "poi_distance a = Num x" and "poi_distance b = Num y"
  shows "by_distance A a b \<noteq> NaN"
    and "js_gt (by_distance A a b) (Num 0) = (y < x)"
    and "cf (by_distance A) a b = (if x < y then - 1 else if y < x then 1 else 0)"
  using assms by (simp_all add: sub_keeps_sign_def by_distance_def cf_def)

lemma consistent_finite:
  assumes "sub_keeps_sign A" and "\<forall>p \<in> set ps. \<exists>d. poi_distance p = Num d"
  shows "consistent (by_distance A) ps"
proof -
  have r1: "cf (by_distance A) a a = 0" if a: "a \<in> set ps" for a
  proof -
    obtain x where "poi_distance a = Num x" using a assms(2) by blast
    then show ?thesis
      using by_distance_finite(3) [OF assms(1), of a x a x] by simp
  qed
  have r2: "by_distance A a b \<noteq> NaN \<and> cf (by_distance A) b a = - cf (by_distance A) a b"
    if ab: "a \<in> set ps" "b \<in> set ps" for a b
  proof -
    have "\<exists>x y. poi_distance a = Num x \<and> poi_distance b = Num y"
      using ab assms(2) by blast
    then obtain x y where "poi_distance a = Num x" "poi_distance b = Num y"
      by blast
    then show ?thesis
      using by_distance_finite [OF assms(1)] by simp
  qed
  have r3: "cf (by_distance A) a c = cf (by_distance A) a b"
    if abc: "a \<in> set ps" "b \<in> set ps" "c \<in> set ps"
      and eq: "cf (by_distance A) a b = cf (by_distance A) b c"
    for a b c
  proof -
    have "\<exists>x y z. poi_distance a = Num x \<and> poi_distance b = Num y \<and> poi_distance c = Num z"
      using abc assms(2) by blast
    then obtain x y z where d: "poi_distance a = Num x" "poi_distance b = Num y" "poi_distance c = Num z"
      by blast
    have "cf (by_distance A) a b = (if x < y then - 1 else if y < x then 1 else 0)"
      "cf (by_distance A) b c = (if y < z then - 1 else if z < y then 1 else 0)"
      "cf (by_distance A) a c = (if x < z then - 1 else if z < x then 1 else 0)"
      using d by_distance_finite(3) [OF assms(1)] by simp_all
    then show ?thesis
      using eq by (auto split: if_splits)
  qed
  show ?thesis
    unfolding consistent_def list_all_iff
  proof (intro ballI conjI)
    fix a assume "a \<in> set ps"
    then show "cf (by_distance A) a a = 0" by (rule r1)
  next
    fix a b assume "a \<in> set ps" "b \<in> set ps"
    then show "by_distance A a b \<noteq> NaN" using r2 by blast
  next
    fix a b assume "a \<in> set ps" "b \<in> set ps"
    then show "cf (by_distance A) b a = - cf (by_distance A) a b" using r2 by blast
  next
    fix a b c assume "a \<in> set ps" "b \<in> set ps" "c \<in> set ps"
    then show "if cf (by_distance A) a b = cf (by_distance A) b c
               then cf (by_distance A) a c = cf (by_distance A) a b else True"
      using r3 [of a b c] by simp
  qed
qed

text \<open>
  Inserting into a list sorted by distance keeps it sorted, when all distances are
  finite numbers.
\<close>

lemma insert_sorted_finite:
  assumes "sub_keeps_sign A"
    and "sorted_wrt distance_le ys"
    and "\<exists>d. poi_distance x = Num d"
    and "\<forall>y \<in> set ys. \<exists>d. poi_distance y = Num d"
  shows "sorted_wrt distance_le (insert_sorted (\<lambda>a b. js_gt (by_distance A a b) (Num 0)) x ys)"
  using assms(2-)
proof (induction ys)
  case Nil
  show ?case by simp
next
  case (Cons y ys)
  obtain dx dy where d: "poi_distance x = Num dx" "poi_distance y = Num dy"
    using Cons.prems by auto
  note gt = by_distance_finite(2) [OF assms(1) d]
  show ?case
  proof (cases "dy < dx")
    case True
    then have "distance_le y x"
      by (simp add: distance_le_def d)
    moreover have "sorted_wrt distance_le (insert_sorted (\<lambda>a b. js_gt (by_distance A a b) (Num 0)) x ys)"
      using Cons by simp
    ultimately show ?thesis
      using True gt Cons.prems(1) by (auto simp: set_insert_sorted)
  next
    case False
    then have xy: "dx \<le> dy" by simp
    have "distance_le x z" if z: "z \<in> set ys" for z
    proof -
      have "\<exists>dz. poi_distance z = Num dz"
        using z Cons.prems(3) by simp
      then obtain dz where dz: "poi_distance z = Num dz" ..
      have "distance_le y z" using z Cons.prems(1) by simp
      then show ?thesis using xy by (simp add: distance_le_def d dz)
    qed
    moreover have "distance_le x y"
      using xy by (simp add: distance_le_def d)
    ultimately show ?thesis
      using False gt Cons.prems(1) by auto
  qed
qed

lemma js_sort_finite:
  assumes "sub_keeps_sign A" and "\<forall>p \<in> set ps. \<exists>d. poi_distance p = Num d"
  shows "sorted_wrt distance_le (js_sort choice (by_distance A) ps)"
proof -
  have "sorted_wrt distance_le (foldr (insert_sorted (\<lambda>a b. js_gt (by_distance A a b) (Num 0))) qs [])"
    if "\<forall>p \<in> set qs. \<exists>d. poi_distance p = Num d" for qs
    using that
  proof (induction qs)
    case Nil
    show ?case by simp
  next
    case (Cons q qs)
    have "sorted_wrt distance_le
        (insert_sorted (\<lambda>a b. js_gt (by_distance A a b) (Num 0)) q
           (foldr (insert_sorted (\<lambda>a b. js_gt (by_distance A a b) (Num 0))) qs []))"
    proof (rule insert_sorted_finite [OF assms(1)])
      show "sorted_wrt distance_le (foldr (insert_sorted (\<lambda>a b. js_gt (by_distance A a b) (Num 0))) qs [])"
        using Cons by simp
      show "\<exists>d. poi_distance q = Num d" using Cons.prems by simp
      show "\<forall>y \<in> set (foldr (insert_sorted (\<lambda>a b. js_gt (by_distance A a b) (Num 0))) qs []).
              \<exists>d. poi_distance y = Num d"
        using Cons.prems by (simp add: set_foldr_insert_sorted)
    qed
    then show ?case by simp
  qed
  then show ?thesis
    using consistent_finite [OF assms] assms(2) by (simp add: js_sort_def)
qed

text \<open>
  A list that holds a record with the distance NaN and another record is not ordered
  by non-decreasing distance, whatever the order of its records.
\<close>

lemma sorted_with_NaN:
  assumes "sorted_wrt distance_le fs" and "p \<in> set fs" and "poi_distance p = NaN"
  shows "length fs \<le> 1"
proof (rule ccontr)
  assume "\<not> length fs \<le> 1"
  then have len: "2 \<le> length fs" by simp
  obtain i where i: "i < length fs" "fs ! i = p"
    using assms(2) by (auto simp: in_set_conv_nth)
  define j where "j = (if i = 0 then 1 else 0 :: nat)"
  have j: "j < length fs" "j \<noteq> i" using len by (auto simp: j_def)
  have "distance_le (fs ! i) (fs ! j) \<or> distance_le (fs ! j) (fs ! i)"
    using assms(1) i(1) j by (cases "i < j") (auto simp: sorted_wrt_iff_nth_less)
  then show False
    using i(2) assms(3) by (auto simp: distance_le_def)
qed

text \<open>
  The value of \<open>formatted\<close> on a well-formed list: at most five records, each with its
  distance from the search center; ordered by distance when all distances are finite
  numbers.
\<close>

lemma formatted_sorted:
  assumes "list_all well_formed_feature els"
  shows "\<exists>fs. formatted w latitude longitude els = Inr fs
           \<and> length fs \<le> 5
           \<and> (\<forall>p \<in> set fs. poi_distance p =
                  haversineDistance (engine_arith w) latitude longitude (poi_lat p) (poi_lon p))
           \<and> (sub_keeps_sign (engine_arith w)
                \<and> distances_finite (engine_arith w) latitude longitude els
              \<longrightarrow> sorted_wrt distance_le fs)"
proof -
  define A where "A = engine_arith w"
  obtain ys where ys: "map_throwing (normalize A latitude longitude) els = Inr ys"
    using map_throwing_well_formed [OF assms] by blast
  define ps where "ps = filter_Boolean ys"
  define fs where "fs = take 5 (js_sort (engine_order w) (by_distance A) ps)"
  have f: "formatted w latitude longitude els = Inr fs"
    by (simp add: formatted_def ys [unfolded A_def] fs_def ps_def A_def)
  have from_el: "\<exists>el \<in> set els. normalize A latitude longitude el = Inr (Some p)"
    if "p \<in> set ps" for p
  proof -
    from that have "Some p \<in> set ys" by (simp add: ps_def set_filter_Boolean)
    then show ?thesis
      using map_throwing_Inr [OF ys] by blast
  qed
  have len: "length fs \<le> 5" by (simp add: fs_def)
  have sub: "p \<in> set ps" if "p \<in> set fs" for p
    using that unfolding fs_def by (auto dest: in_set_takeD simp: set_js_sort)
  have dist: "\<forall>p \<in> set fs. poi_distance p =
      haversineDistance A latitude longitude (poi_lat p) (poi_lon p)"
    using sub from_el normalize_distance by blast
  have sorted: "sorted_wrt distance_le fs"
    if k: "sub_keeps_sign A" and fin: "distances_finite A latitude longitude els"
  proof -
    have "\<exists>d. poi_distance p = Num d" if p: "p \<in> set ps" for p
    proof -
      obtain el where el: "el \<in> set els" "normalize A latitude longitude el = Inr (Some p)"
        using from_el [OF p] by blast
      then have "is_finite (poi_distance p)"
        using fin by (auto simp: distances_finite_def list_all_iff)
      then show ?thesis by (cases "poi_distance p") simp_all
    qed
    then have "sorted_wrt distance_le (js_sort (engine_order w) (by_distance A) ps)"
      using k by (intro js_sort_finite) simp_all
    then show ?thesis
      unfolding fs_def by (rule sorted_wrt_take)
  qed
  show ?thesis
    using f len dist sorted unfolding A_def by blast
qed

section \<open>The examples\<close>

lemma cafe_distance:
  "\<exists>d. haversineDistance unrounded (Num 21.5) (Num 105.75) (Num 21.515625) (Num 105.75) = Num d \<and> 0 < d"
  by (rule haversineDistance_meridian) simp_all

lemma normalize_examples:
  "normalize unrounded (Num 21.5) (Num 105.75) (JObj no_coordinate) = Inr None"
  "normalize unrounded (Num 21.5) (Num 105.75) (JObj museum_way) = Inr (Some museum_poi)"
  "normalize unrounded (Num 21.5) (Num 105.75) (JObj cafe_node) = Inr (Some cafe_poi)"
  by (simp_all add: normalize_def no_coordinate_def museum_way_def cafe_node_def resultLat_def
        resultLon_def buildPoiLabel_def buildCategory_def candidates_def address_of_def
        haversineDistance_same museum_poi_def cafe_poi_def)

text \<open>
  The feature with the infinite latitude is kept, with its infinite latitude and the
  distance NaN, whatever the search center and the arithmetic.
\<close>

lemma normalize_far_node:
  "normalize A latitude longitude (JObj far_node) = Inr (Some far_poi)"
  by (simp add: normalize_def far_node_def resultLat_def resultLon_def buildPoiLabel_def
        buildCategory_def candidates_def address_of_def haversineDistance_not_finite far_poi_def)

lemma example_distances:
  "poi_distance museum_poi = Num 0"
  "poi_distance far_poi = NaN"
  "\<exists>d. poi_distance cafe_poi = Num d \<and> 0 < d"
  using cafe_distance by (simp_all add: museum_poi_def far_poi_def cafe_poi_def)

lemma sort_museum_cafe:
  "js_sort choice (by_distance unrounded) [museum_poi, cafe_poi] = [museum_poi, cafe_poi]"
proof -
  obtain d where d: "poi_distance cafe_poi = Num d" "0 < d"
    using example_distances(3) by blast
  note m = example_distances(1)
  have "consistent (by_distance unrounded) [museum_poi, cafe_poi]"
    by (rule consistent_finite [OF sub_keeps_sign_unrounded]) (auto simp: m d)
  then show ?thesis
    using d(2) by (simp add: js_sort_def by_distance_def m d(1) js_gt_def)
qed


lemma formatted_features:
  "formatted all_services_answer (Num 21.5) (Num 105.75)
     [JObj no_coordinate, JObj museum_way, JObj cafe_node] = Inr [museum_poi, cafe_poi]"
  by (simp add: formatted_def normalize_examples [simplified] all_services_answer_def sort_museum_cafe)

text \<open>
  With the feature of infinite latitude between the cafe and the museum, the comparator
  is not consistent and the three records are published in the order of the features.
\<close>

lemma formatted_overflow:
  "formatted all_services_answer (Num 21.5) (Num 105.75)
     [JObj cafe_node, JObj far_node, JObj museum_way] = Inr [cafe_poi, far_poi, museum_poi]"
proof -
  have "by_distance unrounded cafe_poi far_poi = NaN"
    by (simp add: by_distance_def example_distances(2))
  then have "\<not> consistent (by_distance unrounded) [cafe_poi, far_poi, museum_poi]"
    by (simp add: consistent_def)
  then have "js_sort (\<lambda>xs a b. False) (by_distance unrounded) [cafe_poi, far_poi, museum_poi]
      = [cafe_poi, far_poi, museum_poi]"
    by (simp add: js_sort_def)
  then show ?thesis
    by (simp add: formatted_def normalize_examples [simplified] normalize_far_node all_services_answer_def)
qed

text \<open>
  Whatever the engine, the search center and the order in which the engine leaves the
  three records, the published list holds a record with the distance NaN among others
  and is not ordered by distance.
\<close>

lemma formatted_overflow_any_engine:
  "\<exists>fs. formatted w latitude longitude [JObj cafe_node, JObj far_node, JObj museum_way] = Inr fs
      \<and> length fs = 3 \<and> far_poi \<in> set fs \<and> \<not> sorted_wrt distance_le fs"
proof -
  define A where "A = engine_arith w"
  obtain p1 where p1: "normalize A latitude longitude (JObj cafe_node) = Inr (Some p1)"
    by (simp add: normalize_def cafe_node_def resultLat_def resultLon_def Let_def)
  obtain p3 where p3: "normalize A latitude longitude (JObj museum_way) = Inr (Some p3)"
    by (simp add: normalize_def museum_way_def resultLat_def resultLon_def Let_def)
  define fs where "fs = js_sort (engine_order w) (by_distance A) [p1, far_poi, p3]"
  have len: "length fs = 3" by (simp add: fs_def length_js_sort)
  have f: "formatted w latitude longitude [JObj cafe_node, JObj far_node, JObj museum_way] = Inr fs"
    using len by (simp add: formatted_def p1 p3 normalize_far_node A_def [symmetric] fs_def [symmetric])
  have mem: "far_poi \<in> set fs" by (simp add: fs_def set_js_sort)
  have "\<not> sorted_wrt distance_le fs"
    using sorted_with_NaN [OF _ mem example_distances(2)] len by auto
  with f len mem show ?thesis by blast
qed

section \<open>Properties of the handlers\<close>

lemmas search_defs =
  search_def run_def handleSearch_def search_body_def fan_out_def weather_step_def poi_step_def
  and_then_def emit_def throw_def trim_def is_js_space_def
  parseFloat_str_def parse_unsigned_def is_digit_def digits_val_def digit_val_def scale10_def
  parse_exponent_def Let_def

lemma trim_Hanoi: "trim ''Hanoi'' = ''Hanoi''"
  by (simp add: trim_def is_js_space_def)

lemma all_services_answer_simps [simp]:
  "engine_arith all_services_answer = unrounded"
  "engine_order all_services_answer = (\<lambda>xs a b. False)"
  "geocode_reply all_services_answer = geocode_hanoi"
  "weather_reply all_services_answer = weather_overcast"
  "poi_reply all_services_answer = features_found"
  by (simp_all add: all_services_answer_def)

lemma parseFloat_examples:
  "parseFloat_str unrounded ''21.5'' = Num 21.5"
  "parseFloat_str unrounded ''105.75'' = Num 105.75"
  "parseFloat_str A ''abc'' = NaN"
  by (simp_all add: parseFloat_str_def parse_unsigned_def is_digit_def digits_val_def digit_val_def
        scale10_def parse_exponent_def is_js_space_def)

text \<open>
  A search that succeeds: the place is the geocoder's match, the POIs are the two
  features with a coordinate, nearest first, the weather is the service's, and the
  error message and the loading flag end as they were, empty and off.
\<close>

lemma search_hanoi:
  "search all_services_answer signed_in ''Hanoi'' =
     signed_in
       \<lparr>selectedPlace := Some \<lparr>place_lat = Num 21.5, place_lon = Num 105.75,
                                 place_label = JStr ''Hanoi, Vietnam''\<rparr>,
        pois := [museum_poi, cafe_poi],
        weatherInfo := Some \<lparr>temperature = JNum (Num 29), windSpeed = JNum (Num 7),
                              windDirection = JNum (Num 120), description = Text ''Overcast'',
                              observationTime = JStr ''2024-05-01T10:00''\<rparr>\<rparr>"
proof -
  have f: "formatted all_services_answer (parseFloat unrounded (JStr ''21.5''))
      (parseFloat unrounded (JStr ''105.75''))
      [JObj no_coordinate, JObj museum_way, JObj cafe_node] = Inr [museum_poi, cafe_poi]"
    using formatted_features by (simp add: parseFloat_examples)
  show ?thesis
    by (simp add: search_def run_def handleSearch_def search_body_def fan_out_def weather_step_def
          poi_step_def and_then_def emit_def throw_def trim_Hanoi Let_def
          signed_in_def geocode_hanoi_def weather_overcast_def
          features_found_def features_response_def describeWeatherCode_def weather_lookup_def
          f del: parseFloat.simps)
       (simp add: parseFloat_examples)
qed

lemma run_single: "run s [ev] = apply_event s ev"
  by (simp add: run_def)

lemma run_append: "run s (a @ b) = run (run s a) b"
  by (simp add: run_def)

lemma run_Cons: "run s (ev # evs) = run (apply_event s ev) evs"
  by (simp add: run_def)

lemma selectedPlace_frame:
  "\<not> list_ex is_place_event evs \<Longrightarrow> selectedPlace (run s evs) = selectedPlace s"
proof (induction evs arbitrary: s)
  case Nil
  show ?case by (simp add: run_def)
next
  case (Cons ev evs)
  then have "selectedPlace (apply_event s ev) = selectedPlace s"
    by (cases ev) simp_all
  with Cons show ?case by (simp add: run_Cons)
qed

lemma weather_step_no_place: "\<not> list_ex is_place_event (fst (weather_step r))"
  by (simp add: weather_step_def emit_def throw_def
        split: json_result.splits nullable.splits option.splits)

lemma poi_step_no_place: "\<not> list_ex is_place_event (fst (poi_step w latitude longitude r))"
  by (simp add: poi_step_def emit_def throw_def
        split: json_result.splits nullable.splits option.splits sum.splits)

lemma and_then_events:
  "set (fst (and_then a b)) \<subseteq> set (fst a) \<union> set (fst b)"
  by (auto simp: and_then_def split: option.splits)

lemma list_ex_and_then:
  "\<not> list_ex P (fst a) \<Longrightarrow> \<not> list_ex P (fst b) \<Longrightarrow> \<not> list_ex P (fst (and_then a b))"
  using and_then_events [of a b] by (auto simp: list_ex_iff)

lemma fan_out_no_place: "\<not> list_ex is_place_event (fst (fan_out w latitude longitude))"
proof -
  have join: "\<not> list_ex is_place_event
      (fst (and_then (weather_step wr) (poi_step w latitude longitude pr)))" for wr pr
    using weather_step_no_place poi_step_no_place by (rule list_ex_and_then)
  show ?thesis
  proof (cases "weather_reply w")
    case (Rejected m1)
    then show ?thesis
      by (cases "poi_reply w") (simp_all add: fan_out_def and_then_def emit_def throw_def)
  next
    case wr: (Resolved weatherResponse)
    show ?thesis
    proof (cases "poi_reply w")
      case (Rejected m2)
      with wr show ?thesis
        by (simp add: fan_out_def and_then_def emit_def throw_def)
    next
      case (Resolved poiResponse)
      have "\<not> list_ex is_place_event
          (fst (if ok poiResponse
                then and_then (weather_step weatherResponse) (poi_step w latitude longitude poiResponse)
                else throw ''Unable to fetch nearby points of interest.''))"
        using join by (simp add: throw_def)
      then show ?thesis
        unfolding fan_out_def wr Resolved
        by (intro list_ex_and_then) (simp_all add: emit_def)
    qed
  qed
qed

lemma fan_out_requests:
  "Fetch (WeatherRequest latitude longitude) \<in> set (fst (fan_out w latitude longitude))"
  "Fetch (OverpassRequest latitude longitude) \<in> set (fst (fan_out w latitude longitude))"
  by (simp_all add: fan_out_def and_then_def emit_def split: option.splits)

lemma search_body_match:
  assumes "geocode_reply w = Resolved r" and "ok r" and "json r = Json (Matches (JObj m # rest))"
  shows "search_body w t =
           (Fetch (GeocodeRequest t)
              # SetSelectedPlace \<lparr>place_lat = parseFloat (engine_arith w) (match_lat m),
                                  place_lon = parseFloat (engine_arith w) (match_lon m),
                                  place_label = display_name m\<rparr>
              # fst (fan_out w (parseFloat (engine_arith w) (match_lat m)) (parseFloat (engine_arith w) (match_lon m))),
            snd (fan_out w (parseFloat (engine_arith w) (match_lat m)) (parseFloat (engine_arith w) (match_lon m))))"
  using assms by (simp add: search_body_def and_then_def emit_def Let_def)

lemma result_frame:
  "\<not> list_ex is_result_event evs \<Longrightarrow>
     pois (run s evs) = pois s \<and> errorMessage (run s evs) = errorMessage s"
proof (induction evs arbitrary: s)
  case Nil
  show ?case by (simp add: run_def)
next
  case (Cons ev evs)
  then have "pois (apply_event s ev) = pois s \<and> errorMessage (apply_event s ev) = errorMessage s"
    by (cases ev) simp_all
  with Cons show ?case by (simp add: run_Cons)
qed

lemma weather_frame:
  "\<not> list_ex is_weather_event evs \<Longrightarrow> weatherInfo (run s evs) = weatherInfo s"
proof (induction evs arbitrary: s)
  case Nil
  show ?case by (simp add: run_def)
next
  case (Cons ev evs)
  then have "weatherInfo (apply_event s ev) = weatherInfo s"
    by (cases ev) simp_all
  with Cons show ?case by (simp add: run_Cons)
qed

lemma weather_step_no_result: "\<not> list_ex is_result_event (fst (weather_step r))"
  by (simp add: weather_step_def emit_def throw_def
        split: json_result.splits nullable.splits option.splits)

lemma poi_step_throws: "snd (poi_step w latitude longitude r) = Some m \<Longrightarrow> fst (poi_step w latitude longitude r) = []"
  by (auto simp: poi_step_def emit_def throw_def
        split: json_result.splits nullable.splits option.splits sum.splits)

lemma and_then_throws:
  "snd (and_then a b) = Some m \<Longrightarrow>
     (snd a = Some m \<and> fst (and_then a b) = fst a)
     \<or> (snd a = None \<and> snd b = Some m \<and> fst (and_then a b) = fst a @ fst b)"
  by (cases a) (auto simp: and_then_def split: option.splits)

text \<open>The fan-out, when it throws, has set neither POIs nor an error message.\<close>

lemma fan_out_throws:
  assumes "snd (fan_out w latitude longitude) = Some m"
  shows "\<not> list_ex is_result_event (fst (fan_out w latitude longitude))"
proof (cases "weather_reply w")
  case (Rejected m1)
  then show ?thesis
    by (cases "poi_reply w") (simp_all add: fan_out_def and_then_def emit_def throw_def)
next
  case wr: (Resolved weatherResponse)
  show ?thesis
  proof (cases "poi_reply w")
    case (Rejected m2)
    with wr show ?thesis
      by (simp add: fan_out_def and_then_def emit_def throw_def)
  next
    case pr: (Resolved poiResponse)
    show ?thesis
    proof (cases "ok poiResponse")
      case False
      with wr pr show ?thesis
        by (simp add: fan_out_def and_then_def emit_def throw_def)
    next
      case True
      define b where "b = and_then (weather_step weatherResponse) (poi_step w latitude longitude poiResponse)"
      have f: "fan_out w latitude longitude =
          and_then (emit [Fetch (WeatherRequest latitude longitude), Fetch (OverpassRequest latitude longitude)]) b"
        by (simp add: fan_out_def wr pr True b_def)
      have sb: "snd b = Some m"
        using assms by (simp add: f and_then_def emit_def)
      have "\<not> list_ex is_result_event (fst b)"
        using and_then_throws [OF sb [unfolded b_def]] weather_step_no_result [of weatherResponse]
          poi_step_throws [of w latitude longitude poiResponse m]
        by (auto simp: b_def)
      then show ?thesis
        by (simp add: f and_then_def emit_def)
    qed
  qed
qed

lemma search_body_throws:
  assumes "snd (search_body w t) = Some m"
  shows "\<not> list_ex is_result_event (fst (search_body w t))"
proof (cases "geocode_reply w")
  case (Rejected msg)
  then show ?thesis by (simp add: search_body_def and_then_def emit_def throw_def)
next
  case (Resolved r)
  show ?thesis
  proof (cases "\<exists>mt rest. ok r \<and> json r = Json (Matches (JObj mt # rest))")
    case True
    then obtain mt rest where r: "ok r" "json r = Json (Matches (JObj mt # rest))" by blast
    note body = search_body_match [OF Resolved r, of t]
    have "snd (fan_out w (parseFloat (engine_arith w) (match_lat mt)) (parseFloat (engine_arith w) (match_lon mt))) = Some m"
      using assms by (simp add: body)
    then have "\<not> list_ex is_result_event (fst (fan_out w (parseFloat (engine_arith w) (match_lat mt)) (parseFloat (engine_arith w) (match_lon mt))))"
      by (rule fan_out_throws)
    then show ?thesis by (simp add: body)
  next
    case False
    then show ?thesis
      using Resolved
      by (auto simp: search_body_def and_then_def emit_def throw_def
            split: json_result.splits geocode_data.splits list.splits nullable.splits)
  qed
qed

lemma weather_step_throws: "snd (weather_step r) = Some m \<Longrightarrow> fst (weather_step r) = []"
  by (auto simp: weather_step_def emit_def throw_def
        split: json_result.splits nullable.splits option.splits if_splits)

lemma weather_step_returns:
  "snd (weather_step r) = None \<Longrightarrow> \<exists>x. fst (weather_step r) = [SetWeatherInfo x]"
  by (auto simp: weather_step_def emit_def throw_def
        split: json_result.splits nullable.splits option.splits if_splits)

text \<open>
  The fan-out, when it throws, has not touched the weather, unless the error comes from
  the feature step that runs after the weather response was handled.
\<close>

lemma fan_out_throws_weather:
  assumes "snd (fan_out w latitude longitude) = Some m"
  shows "\<not> list_ex is_weather_event (fst (fan_out w latitude longitude))
         \<or> (\<exists>wr pr. weather_reply w = Resolved wr \<and> poi_reply w = Resolved pr \<and> ok pr
                \<and> snd (weather_step wr) = None
                \<and> snd (poi_step w latitude longitude pr) = Some m
                \<and> fst (fan_out w latitude longitude) =
                     [Fetch (WeatherRequest latitude longitude), Fetch (OverpassRequest latitude longitude)]
                     @ fst (weather_step wr))"
proof (cases "weather_reply w")
  case (Rejected m1)
  then show ?thesis
    by (cases "poi_reply w") (simp_all add: fan_out_def and_then_def emit_def throw_def)
next
  case wr: (Resolved weatherResponse)
  show ?thesis
  proof (cases "poi_reply w")
    case (Rejected m2)
    with wr show ?thesis
      by (simp add: fan_out_def and_then_def emit_def throw_def)
  next
    case pr: (Resolved poiResponse)
    show ?thesis
    proof (cases "ok poiResponse")
      case False
      with wr pr show ?thesis
        by (simp add: fan_out_def and_then_def emit_def throw_def)
    next
      case True
      define b where "b = and_then (weather_step weatherResponse) (poi_step w latitude longitude poiResponse)"
      have f: "fan_out w latitude longitude =
          and_then (emit [Fetch (WeatherRequest latitude longitude), Fetch (OverpassRequest latitude longitude)]) b"
        by (simp add: fan_out_def wr pr True b_def)
      have sb: "snd b = Some m"
        using assms by (simp add: f and_then_def emit_def)
      have ev: "fst (fan_out w latitude longitude) =
          [Fetch (WeatherRequest latitude longitude), Fetch (OverpassRequest latitude longitude)] @ fst b"
        by (simp add: f and_then_def emit_def)
      from and_then_throws [OF sb [unfolded b_def]]
      show ?thesis
      proof
        assume a: "snd (weather_step weatherResponse) = Some m \<and>
          fst (and_then (weather_step weatherResponse) (poi_step w latitude longitude poiResponse))
            = fst (weather_step weatherResponse)"
        then have "fst b = []"
          using weather_step_throws [of weatherResponse m] by (simp add: b_def)
        then show ?thesis by (simp add: ev)
      next
        assume a: "snd (weather_step weatherResponse) = None \<and>
          snd (poi_step w latitude longitude poiResponse) = Some m \<and>
          fst (and_then (weather_step weatherResponse) (poi_step w latitude longitude poiResponse))
            = fst (weather_step weatherResponse) @ fst (poi_step w latitude longitude poiResponse)"
        then have "fst b = fst (weather_step weatherResponse)"
          using poi_step_throws [of w latitude longitude poiResponse m] by (simp add: b_def)
        with a wr pr True ev show ?thesis by simp
      qed
    qed
  qed
qed


text \<open>
  A search that fails after validation ends with the error message set, to the message
  of the error, and with no POIs. Its weather snapshot is absent, except when the error
  is thrown by the feature step, which runs after the weather response was handled:
  then the weather is what the weather response of this very search gave.
\<close>

lemma failed_search_state:
  assumes "currentUser s \<noteq> None" and "trim userQuery \<noteq> []"
    and "snd (search_body w (trim userQuery)) = Some m"
  shows "errorMessage (search w s userQuery) =
           (if m = [] then ''Something went wrong, please try again.'' else m)
         \<and> errorMessage (search w s userQuery) \<noteq> []
         \<and> pois (search w s userQuery) = []
         \<and> (weatherInfo (search w s userQuery) = None
              \<or> (\<exists>wr pr latitude longitude.
                    weather_reply w = Resolved wr \<and> poi_reply w = Resolved pr \<and> ok pr
                    \<and> snd (poi_step w latitude longitude pr) = Some m
                    \<and> weather_step wr = emit [SetWeatherInfo (weatherInfo (search w s userQuery))]))"
proof -
  define evs where "evs = fst (search_body w (trim userQuery))"
  define msg where "msg = (if m = [] then ''Something went wrong, please try again.'' else m)"
  have b: "search_body w (trim userQuery) = (evs, Some m)"
    using assms(3) by (simp add: evs_def prod_eq_iff)
  have trace: "handleSearch w s userQuery =
      [SetIsLoading True, SetErrorMessage [], SetPois [], SetWeatherInfo None]
      @ evs @ [SetErrorMessage msg, SetIsLoading False]"
    using assms(1,2) by (simp add: handleSearch_def b msg_def)
  define s0 where "s0 = run s [SetIsLoading True, SetErrorMessage [], SetPois [], SetWeatherInfo None]"
  have fin: "search w s userQuery = run (run s0 evs) [SetErrorMessage msg, SetIsLoading False]"
    unfolding search_def trace s0_def by (simp only: run_append)
  have w0: "weatherInfo s0 = None" by (simp add: s0_def run_def)
  have last: "weatherInfo (search w s userQuery) = weatherInfo (run s0 evs)"
    unfolding fin by (simp add: run_def)
  have quiet_then: "weatherInfo (search w s userQuery) = None" if "\<not> list_ex is_weather_event evs"
    using weather_frame [OF that, of s0] w0 last by simp
  have weather: "weatherInfo (search w s userQuery) = None
              \<or> (\<exists>wr pr latitude longitude.
                    weather_reply w = Resolved wr \<and> poi_reply w = Resolved pr \<and> ok pr
                    \<and> snd (poi_step w latitude longitude pr) = Some m
                    \<and> weather_step wr = emit [SetWeatherInfo (weatherInfo (search w s userQuery))])"
  proof (cases "geocode_reply w")
    case (Rejected e)
    then have "evs = [Fetch (GeocodeRequest (trim userQuery))]"
      by (simp add: evs_def search_body_def and_then_def emit_def throw_def)
    then show ?thesis using quiet_then by simp
  next
    case (Resolved r)
    show ?thesis
    proof (cases "\<exists>mt rest. ok r \<and> json r = Json (Matches (JObj mt # rest))")
      case True
      then obtain mt rest where r: "ok r" "json r = Json (Matches (JObj mt # rest))" by blast
      define la where "la = parseFloat (engine_arith w) (match_lat mt)"
      define lo where "lo = parseFloat (engine_arith w) (match_lon mt)"
      note body = search_body_match [OF Resolved r, of "trim userQuery", folded la_def lo_def]
      have thrown: "snd (fan_out w la lo) = Some m"
        using assms(3) by (simp add: body)
      from fan_out_throws_weather [OF thrown] show ?thesis
      proof
        assume "\<not> list_ex is_weather_event (fst (fan_out w la lo))"
        then have "\<not> list_ex is_weather_event evs"
          by (simp add: evs_def body)
        then show ?thesis using quiet_then by simp
      next
        assume "\<exists>wr pr. weather_reply w = Resolved wr \<and> poi_reply w = Resolved pr \<and> ok pr
                \<and> snd (weather_step wr) = None \<and> snd (poi_step w la lo pr) = Some m
                \<and> fst (fan_out w la lo) =
                     [Fetch (WeatherRequest la lo), Fetch (OverpassRequest la lo)] @ fst (weather_step wr)"
        then obtain wr pr where k: "weather_reply w = Resolved wr" "poi_reply w = Resolved pr" "ok pr"
          "snd (weather_step wr) = None" "snd (poi_step w la lo pr) = Some m"
          "fst (fan_out w la lo) =
             [Fetch (WeatherRequest la lo), Fetch (OverpassRequest la lo)] @ fst (weather_step wr)"
          by blast
        obtain x where x: "fst (weather_step wr) = [SetWeatherInfo x]"
          using weather_step_returns [OF k(4)] by blast
        have "evs = [Fetch (GeocodeRequest (trim userQuery)),
                     SetSelectedPlace \<lparr>place_lat = la, place_lon = lo, place_label = display_name mt\<rparr>,
                     Fetch (WeatherRequest la lo), Fetch (OverpassRequest la lo), SetWeatherInfo x]"
          by (simp add: evs_def body k(6) x)
        then have "weatherInfo (search w s userQuery) = x"
          by (simp add: last run_def)
        then have "weather_step wr = emit [SetWeatherInfo (weatherInfo (search w s userQuery))]"
          using x k(4) by (simp add: emit_def prod_eq_iff)
        with k show ?thesis by blast
      qed
    next
      case False
      then have "evs = [Fetch (GeocodeRequest (trim userQuery))]"
        using Resolved
        by (auto simp: evs_def search_body_def and_then_def emit_def throw_def
              split: json_result.splits geocode_data.splits list.splits nullable.splits)
      then show ?thesis using quiet_then by simp
    qed
  qed
  have quiet: "\<not> list_ex is_result_event evs"
    unfolding evs_def using assms(3) by (rule search_body_throws)
  have p0: "pois s0 = []" by (simp add: s0_def run_def)
  have err: "errorMessage (search w s userQuery) = msg"
    unfolding fin by (simp add: run_def)
  have "pois (search w s userQuery) = pois (run s0 evs)"
    unfolding fin by (simp add: run_def)
  then have p: "pois (search w s userQuery) = []"
    using result_frame [OF quiet, of s0] p0 by simp
  have "msg \<noteq> []" by (simp add: msg_def)
  with err p weather show ?thesis by (simp add: msg_def)
qed

text \<open>
  The two halves of the weather policy that the code does implement: a weather response
  that is no success, or carries no current conditions, only clears the weather; a
  feature response that is no success fails the search.
\<close>

lemma weather_step_degrades:
  "\<not> ok r \<Longrightarrow> weather_step r = emit [SetWeatherInfo None]"
  "ok r \<Longrightarrow> json r = Json JNull \<Longrightarrow> weather_step r = emit [SetWeatherInfo None]"
  "ok r \<Longrightarrow> json r = Json (JObj wj) \<Longrightarrow> current_weather wj = None \<Longrightarrow>
     weather_step r = emit [SetWeatherInfo None]"
  by (simp_all add: weather_step_def)

lemma fan_out_feature_refusal:
  "weather_reply w = Resolved wr \<Longrightarrow> poi_reply w = Resolved pr \<Longrightarrow> \<not> ok pr \<Longrightarrow>
     snd (fan_out w latitude longitude) = Some ''Unable to fetch nearby points of interest.''"
  by (simp add: fan_out_def and_then_def emit_def throw_def)

text \<open>
  Whether the feature step and the fan-out throw, and with which message, depends on
  the replies alone: it is the same for every pair of coordinates.
\<close>

lemma snd_and_then: "snd (and_then a b) = (case snd a of Some m \<Rightarrow> Some m | None \<Rightarrow> snd b)"
  by (simp add: and_then_def split: option.splits)

lemma formatted_thrown:
  "thrown (formatted w latitude longitude els) = thrown (formatted w latitude' longitude' els)"
proof -
  have "thrown (formatted w la lo els) = thrown (map_throwing (normalize (engine_arith w) la lo) els)"
    for la lo
    by (simp add: formatted_def split: sum.splits)
  then show ?thesis
    using map_throwing_thrown [of "normalize (engine_arith w) latitude longitude"
        "normalize (engine_arith w) latitude' longitude'" els] normalize_thrown
    by simp
qed

lemma snd_poi_step:
  "snd (poi_step w latitude longitude r) =
     (case json r of
        JsonError msg \<Rightarrow> Some msg
      | Json JNull \<Rightarrow> Some TYPE_ERROR
      | Json (JObj d) \<Rightarrow>
          thrown (formatted w latitude longitude (case elements d of Some es \<Rightarrow> es | None \<Rightarrow> [])))"
  by (simp add: poi_step_def throw_def emit_def split: json_result.splits nullable.splits sum.splits)

lemma poi_step_outcome:
  "snd (poi_step w latitude longitude r) = snd (poi_step w latitude' longitude' r)"
  unfolding snd_poi_step
  using formatted_thrown [of w latitude longitude _ latitude' longitude']
  by (simp split: json_result.splits nullable.splits)

lemma fan_out_outcome:
  "snd (fan_out w latitude longitude) = snd (fan_out w latitude' longitude')"
proof (cases "weather_reply w")
  case (Rejected m1)
  then show ?thesis
    by (cases "poi_reply w") (simp_all add: fan_out_def snd_and_then emit_def throw_def)
next
  case wr: (Resolved weatherResponse)
  show ?thesis
  proof (cases "poi_reply w")
    case (Rejected m2)
    with wr show ?thesis
      by (simp add: fan_out_def snd_and_then emit_def throw_def)
  next
    case (Resolved poiResponse)
    with wr show ?thesis
      using poi_step_outcome [of w latitude longitude poiResponse latitude' longitude']
      by (auto simp: fan_out_def snd_and_then emit_def throw_def split: option.splits)
  qed
qed

lemma translate_rejected_locally:
  assumes "currentUser s = None \<or> trim englishText = [] \<or> TRANSLATION_ENDPOINT w = []"
  shows "\<not> list_ex is_fetch (handleTranslate w s englishText)"
    and "translationError (translate w s englishText) \<noteq> []"
    and "isTranslating (translate w s englishText) = isTranslating s"
  using assms by (auto simp: handleTranslate_def translate_def run_def)

lemma translate_empty_result:
  assumes "currentUser s \<noteq> None" and "trim englishText \<noteq> []" and "TRANSLATION_ENDPOINT w \<noteq> []"
    and "translate_reply w = Resolved response" and "ok response" and "json response = Json data"
    and "translatedText data = []"
  shows "translationError (translate w s englishText) =
           ''Translation service did not return any translated text.''"
    and "translationResult (translate w s englishText) = []"
  using assms
  by (auto simp: handleTranslate_def translate_def run_def translate_body_def and_then_def
        emit_def throw_def)

lemma translatedText_lacking: "lacks_translation data \<Longrightarrow> translatedText data = []"
  by (auto simp: translatedText_def lacks_translation_def split: nullable.splits jsv.splits)

section \<open>The claims\<close>

text \<open>
  C1, as the code has it. For every well-formed feature list, the feature step of a
  search does not throw and publishes the value of \<open>formatted\<close>: at most 5 records, each
  with its distance from the search center. The list is ordered by non-decreasing
  distance when every distance that was computed for the features is a finite number
  (and the subtraction of the engine keeps the sign of a difference, as that of 64-bit
  floats does).
\<close>

theorem poi_step_publishes_at_most_five_sorted_when_finite:
  assumes "json poiResponse = Json (JObj poiData)"
    and "elements poiData = Some els"
    and "list_all well_formed_feature els"
  shows "\<exists>fs. formatted w latitude longitude els = Inr fs
           \<and> poi_step w latitude longitude poiResponse =
               emit ((if fs = []
                      then [SetErrorMessage ''No notable places found within 2km of this location.'']
                      else []) @ [SetPois fs])
           \<and> length fs \<le> 5
           \<and> (\<forall>p \<in> set fs. poi_distance p =
                  haversineDistance (engine_arith w) latitude longitude (poi_lat p) (poi_lon p))
           \<and> (sub_keeps_sign (engine_arith w)
                \<and> distances_finite (engine_arith w) latitude longitude els
              \<longrightarrow> sorted_wrt distance_le fs)"
proof -
  obtain fs where fs: "formatted w latitude longitude els = Inr fs"
    and rest: "length fs \<le> 5"
      "\<forall>p \<in> set fs. poi_distance p =
          haversineDistance (engine_arith w) latitude longitude (poi_lat p) (poi_lon p)"
      "sub_keeps_sign (engine_arith w) \<and> distances_finite (engine_arith w) latitude longitude els
         \<longrightarrow> sorted_wrt distance_le fs"
    using formatted_sorted [OF assms(3), of w latitude longitude] by blast
  have "poi_step w latitude longitude poiResponse =
      emit ((if fs = []
             then [SetErrorMessage ''No notable places found within 2km of this location.'']
             else []) @ [SetPois fs])"
    by (simp add: poi_step_def assms(1,2) fs)
  with fs rest show ?thesis by blast
qed

theorem poi_step_publishes_at_most_five_sorted_when_finite_witness:
  "json features_response =
     Json (JObj \<lparr>elements = Some [JObj no_coordinate, JObj museum_way, JObj cafe_node]\<rparr>)
   \<and> list_all well_formed_feature [JObj no_coordinate, JObj museum_way, JObj cafe_node]
   \<and> sub_keeps_sign (engine_arith all_services_answer)
   \<and> distances_finite (engine_arith all_services_answer) (Num 21.5) (Num 105.75)
         [JObj no_coordinate, JObj museum_way, JObj cafe_node]
   \<and> formatted all_services_answer (Num 21.5) (Num 105.75)
         [JObj no_coordinate, JObj museum_way, JObj cafe_node] = Inr [museum_poi, cafe_poi]
   \<and> poi_step all_services_answer (Num 21.5) (Num 105.75) features_response
        = emit [SetPois [museum_poi, cafe_poi]]
   \<and> length [museum_poi, cafe_poi] \<le> 5
   \<and> sorted_wrt distance_le [museum_poi, cafe_poi]"
proof -
  have h1: "json features_response =
      Json (JObj \<lparr>elements = Some [JObj no_coordinate, JObj museum_way, JObj cafe_node]\<rparr>)"
    by (simp add: features_response_def)
  have h2: "elements \<lparr>elements = Some [JObj no_coordinate, JObj museum_way, JObj cafe_node]\<rparr> =
      Some [JObj no_coordinate, JObj museum_way, JObj cafe_node]"
    by simp
  have h3: "list_all well_formed_feature [JObj no_coordinate, JObj museum_way, JObj cafe_node]"
    by (simp add: no_coordinate_def museum_way_def cafe_node_def)
  have h4: "sub_keeps_sign (engine_arith all_services_answer)"
    by (simp add: sub_keeps_sign_unrounded)
  obtain d where d: "poi_distance cafe_poi = Num d"
    using example_distances(3) by blast
  have h5: "distances_finite (engine_arith all_services_answer) (Num 21.5) (Num 105.75)
      [JObj no_coordinate, JObj museum_way, JObj cafe_node]"
    by (simp add: distances_finite_def normalize_examples [simplified] example_distances(1) d)
  note h6 = formatted_features
  show ?thesis
    using h1 h3 h4 h5 h6
      poi_step_publishes_at_most_five_sorted_when_finite
        [OF h1 h2 h3, of all_services_answer "Num 21.5" "Num 105.75"]
    by auto
qed

text \<open>
  C1 as stated fails: between a cafe and a museum the feature list holds a feature
  whose latitude numeral overflows to an infinity. The list is well formed, the
  distance of that feature is NaN, and the three records are published with the cafe,
  which is farther from the search center, before the museum.
\<close>

theorem infinite_coordinate_breaks_order:
  "list_all well_formed_feature [JObj cafe_node, JObj far_node, JObj museum_way]
   \<and> json overflow_response =
       Json (JObj \<lparr>elements = Some [JObj cafe_node, JObj far_node, JObj museum_way]\<rparr>)
   \<and> poi_step all_services_answer (Num 21.5) (Num 105.75) overflow_response
        = emit [SetPois [cafe_poi, far_poi, museum_poi]]
   \<and> poi_distance far_poi = NaN
   \<and> js_gt (poi_distance cafe_poi) (poi_distance museum_poi)
   \<and> \<not> sorted_wrt distance_le [cafe_poi, far_poi, museum_poi]"
proof -
  obtain d where d: "poi_distance cafe_poi = Num d" "0 < d"
    using example_distances(3) by blast
  have "poi_step all_services_answer (Num 21.5) (Num 105.75) overflow_response
      = emit [SetPois [cafe_poi, far_poi, museum_poi]]"
    using formatted_overflow by (simp add: poi_step_def overflow_response_def)
  moreover have "list_all well_formed_feature [JObj cafe_node, JObj far_node, JObj museum_way]"
    by (simp add: cafe_node_def far_node_def museum_way_def)
  moreover have "js_gt (poi_distance cafe_poi) (poi_distance museum_poi)"
    using d(2) by (simp add: js_gt_def d(1) example_distances(1))
  moreover have "\<not> sorted_wrt distance_le [cafe_poi, far_poi, museum_poi]"
    by (simp add: distance_le_def example_distances(2))
  ultimately show ?thesis
    by (simp add: overflow_response_def example_distances(2))
qed

text \<open>
  C2. The code at the failing input: the geocoder and the weather service answer, the
  feature service answers 200 with a body that is no JSON document. The search fails,
  with the error message set and no POIs, and the weather snapshot of this search is
  in the state.
\<close>

theorem failed_search_keeps_new_weather:
  "snd (search_body unreadable_features (trim ''Hanoi'')) =
     Some ''Unexpected token < in JSON at position 0''
   \<and> errorMessage (search unreadable_features signed_in ''Hanoi'') =
       ''Unexpected token < in JSON at position 0''
   \<and> pois (search unreadable_features signed_in ''Hanoi'') = []
   \<and> weatherInfo (search unreadable_features signed_in ''Hanoi'') =
       Some \<lparr>temperature = JNum (Num 29), windSpeed = JNum (Num 7), windDirection = JNum (Num 120),
             description = Text ''Overcast'', observationTime = JStr ''2024-05-01T10:00''\<rparr>"
  by (simp add: search_defs unreadable_features_def signed_in_def geocode_hanoi_def
        weather_overcast_def describeWeatherCode_def weather_lookup_def)

text \<open>
  C3, as the code has it. When the latitude or the longitude of the geocoder's first
  match reads as NaN, the search does not stop there: the match is stored as the new
  place, with NaN for that coordinate, the weather and the feature requests are sent
  with these coordinates, and the search ends with the loading flag off. It fails
  exactly when the fan-out that follows throws, with the message of that error, and
  whether the fan-out throws is the same for every pair of coordinates: the replies of
  the two services decide it, not the field that did not parse.
\<close>

theorem unparsed_coordinate_stored_as_NaN:
  assumes "currentUser s \<noteq> None" and "trim userQuery \<noteq> []"
    and "geocode_reply w = Resolved r" and "ok r" and "json r = Json (Matches (JObj m # rest))"
    and "parseFloat (engine_arith w) (match_lat m) = NaN
         \<or> parseFloat (engine_arith w) (match_lon m) = NaN"
  shows "\<exists>p. selectedPlace (search w s userQuery) = Some p
           \<and> p = \<lparr>place_lat = parseFloat (engine_arith w) (match_lat m),
                   place_lon = parseFloat (engine_arith w) (match_lon m),
                   place_label = display_name m\<rparr>
           \<and> (place_lat p = NaN \<or> place_lon p = NaN)
           \<and> Fetch (WeatherRequest (place_lat p) (place_lon p)) \<in> set (handleSearch w s userQuery)
           \<and> Fetch (OverpassRequest (place_lat p) (place_lon p)) \<in> set (handleSearch w s userQuery)
           \<and> isLoading (search w s userQuery) = False
           \<and> snd (search_body w (trim userQuery)) = snd (fan_out w (place_lat p) (place_lon p))
           \<and> (\<forall>latitude longitude.
                 snd (fan_out w latitude longitude) = snd (fan_out w (place_lat p) (place_lon p)))
           \<and> (\<forall>msg. snd (fan_out w (place_lat p) (place_lon p)) = Some msg \<longrightarrow>
                 errorMessage (search w s userQuery) =
                   (if msg = [] then ''Something went wrong, please try again.'' else msg))"
proof -
  define la where "la = parseFloat (engine_arith w) (match_lat m)"
  define lo where "lo = parseFloat (engine_arith w) (match_lon m)"
  define p where "p = \<lparr>place_lat = la, place_lon = lo, place_label = display_name m\<rparr>"
  define tail where "tail = (case snd (fan_out w la lo) of
      None \<Rightarrow> []
    | Some msg \<Rightarrow> [SetErrorMessage (if msg = [] then ''Something went wrong, please try again.'' else msg)])"
  have body: "search_body w (trim userQuery) =
      (Fetch (GeocodeRequest (trim userQuery)) # SetSelectedPlace p # fst (fan_out w la lo),
       snd (fan_out w la lo))"
    unfolding p_def la_def lo_def using assms(3,4,5) by (rule search_body_match)
  have trace: "handleSearch w s userQuery =
      [SetIsLoading True, SetErrorMessage [], SetPois [], SetWeatherInfo None,
       Fetch (GeocodeRequest (trim userQuery))]
      @ SetSelectedPlace p # (fst (fan_out w la lo) @ tail @ [SetIsLoading False])"
    using assms(1,2) by (simp add: handleSearch_def body tail_def split: option.splits)
  have "\<not> list_ex is_place_event tail"
    by (simp add: tail_def split: option.splits)
  then have rest: "\<not> list_ex is_place_event (fst (fan_out w la lo) @ tail @ [SetIsLoading False])"
    using fan_out_no_place [of w la lo] by simp
  have place: "selectedPlace (search w s userQuery) = Some p"
  proof -
    define pre where "pre = [SetIsLoading True, SetErrorMessage [], SetPois [], SetWeatherInfo None,
       Fetch (GeocodeRequest (trim userQuery))]"
    define s1 where "s1 = apply_event (run s pre) (SetSelectedPlace p)"
    have "search w s userQuery = run s1 (fst (fan_out w la lo) @ tail @ [SetIsLoading False])"
      unfolding search_def trace pre_def [symmetric] s1_def by (simp only: run_append run_Cons)
    then have "selectedPlace (search w s userQuery) = selectedPlace s1"
      by (simp only: selectedPlace_frame [OF rest])
    then show ?thesis by (simp add: s1_def)
  qed
  have loading: "isLoading (search w s userQuery) = False"
  proof -
    have "handleSearch w s userQuery =
        ([SetIsLoading True, SetErrorMessage [], SetPois [], SetWeatherInfo None,
          Fetch (GeocodeRequest (trim userQuery)), SetSelectedPlace p]
         @ fst (fan_out w la lo) @ tail) @ [SetIsLoading False]"
      by (simp add: trace)
    then show ?thesis
      unfolding search_def by (simp only: run_append) (simp add: run_def)
  qed
  have nan: "place_lat p = NaN \<or> place_lon p = NaN"
    using assms(6) by (simp add: p_def la_def lo_def)
  have req: "Fetch (WeatherRequest (place_lat p) (place_lon p)) \<in> set (handleSearch w s userQuery)"
    "Fetch (OverpassRequest (place_lat p) (place_lon p)) \<in> set (handleSearch w s userQuery)"
    using fan_out_requests [of la lo w] by (simp_all add: trace p_def)
  have outcome: "snd (search_body w (trim userQuery)) = snd (fan_out w (place_lat p) (place_lon p))"
    by (simp add: body p_def)
  have same: "\<forall>latitude longitude.
      snd (fan_out w latitude longitude) = snd (fan_out w (place_lat p) (place_lon p))"
    using fan_out_outcome by blast
  have err: "errorMessage (search w s userQuery) =
      (if msg = [] then ''Something went wrong, please try again.'' else msg)"
    if "snd (fan_out w (place_lat p) (place_lon p)) = Some msg" for msg
    using failed_search_state [OF assms(1,2), of w msg] that outcome by simp
  show ?thesis
    using place loading nan req outcome same err by (simp add: p_def la_def lo_def)
qed

theorem unparsed_coordinate_stored_as_NaN_witness:
  "currentUser signed_in \<noteq> None \<and> trim ''Hanoi'' \<noteq> []
   \<and> parseFloat (engine_arith malformed_latitude) (JStr ''abc'') = NaN
   \<and> selectedPlace (search malformed_latitude signed_in ''Hanoi'') =
       Some \<lparr>place_lat = NaN, place_lon = Num 105.75, place_label = JStr ''Hanoi, Vietnam''\<rparr>
   \<and> Fetch (WeatherRequest NaN (Num 105.75)) \<in> set (handleSearch malformed_latitude signed_in ''Hanoi'')
   \<and> Fetch (OverpassRequest NaN (Num 105.75)) \<in> set (handleSearch malformed_latitude signed_in ''Hanoi'')
   \<and> isLoading (search malformed_latitude signed_in ''Hanoi'') = False
   \<and> snd (search_body malformed_latitude (trim ''Hanoi'')) =
       Some ''Unable to fetch nearby points of interest.''
   \<and> (\<forall>latitude longitude. snd (fan_out malformed_latitude latitude longitude) =
         Some ''Unable to fetch nearby points of interest.'')
   \<and> errorMessage (search malformed_latitude signed_in ''Hanoi'') =
       ''Unable to fetch nearby points of interest.''"
proof -
  define m where "m = \<lparr>match_lat = JStr ''abc'', match_lon = JStr ''105.75'',
                        display_name = JStr ''Hanoi, Vietnam''\<rparr>"
  define r :: "geocode_data response" where "r = \<lparr>ok = True, status = 200, json = Json (Matches [JObj m])\<rparr>"
  have a: "engine_arith malformed_latitude = unrounded"
    by (simp add: malformed_latitude_def)
  have h1: "currentUser signed_in \<noteq> None" by (simp add: signed_in_def)
  have h2: "trim ''Hanoi'' \<noteq> []" by (simp add: trim_Hanoi)
  have h3: "geocode_reply malformed_latitude = Resolved r"
    by (simp add: malformed_latitude_def r_def m_def)
  have h4: "ok r" by (simp add: r_def)
  have h5: "json r = Json (Matches (JObj m # []))" by (simp add: r_def)
  have h6: "parseFloat (engine_arith malformed_latitude) (JStr ''abc'') = NaN"
    by (simp add: parseFloat_examples)
  then have h6': "parseFloat (engine_arith malformed_latitude) (match_lat m) = NaN
      \<or> parseFloat (engine_arith malformed_latitude) (match_lon m) = NaN"
    by (simp add: m_def)
  have lon: "parseFloat (engine_arith malformed_latitude) (JStr ''105.75'') = Num 105.75"
    by (simp add: a parseFloat_examples)
  have thrown: "snd (fan_out malformed_latitude latitude longitude) =
      Some ''Unable to fetch nearby points of interest.''" for latitude longitude
    by (simp add: fan_out_def malformed_latitude_def and_then_def emit_def throw_def)
  show ?thesis
    using h1 h2 h6 lon thrown unparsed_coordinate_stored_as_NaN [OF h1 h2 h3 h4 h5 h6']
    by (simp add: m_def)
qed

text \<open>
  C3 as stated fails: with the latitude \<open>"abc"\<close> the search stores a place whose latitude
  is NaN, and the error it ends with is that of the feature service, not that of a
  location that was not found.
\<close>

theorem malformed_latitude_counterexample:
  "parseFloat (engine_arith malformed_latitude) (JStr ''abc'') = NaN
   \<and> selectedPlace signed_in = None
   \<and> selectedPlace (search malformed_latitude signed_in ''Hanoi'') =
       Some \<lparr>place_lat = NaN, place_lon = Num 105.75, place_label = JStr ''Hanoi, Vietnam''\<rparr>
   \<and> errorMessage (search malformed_latitude signed_in ''Hanoi'') =
       ''Unable to fetch nearby points of interest.''"
  by (simp add: search_defs malformed_latitude_def signed_in_def)




text \<open>
  C5. The code at the failing input: the geocoder and the feature service answer, the
  request to the weather service is rejected. The search ends with the message of the
  rejection as its error and publishes no POIs.
\<close>

theorem weather_rejection_fails_search:
  "errorMessage (search weather_unreachable signed_in ''Hanoi'') = ''Failed to fetch''
   \<and> pois (search weather_unreachable signed_in ''Hanoi'') = []
   \<and> weatherInfo (search weather_unreachable signed_in ''Hanoi'') = None"
  by (simp add: search_defs weather_unreachable_def signed_in_def geocode_hanoi_def
        features_found_def features_response_def)

text \<open>
  C6, as the code has it. The derived name is the value of the first of name, name:vi,
  name:en, amenity, tourism, leisure whose value is present and not empty, and
  \<open>Point of interest\<close> when there is none; the tags \<open>{amenity: "cafe"}\<close> give \<open>cafe\<close>.
\<close>

theorem buildPoiLabel_first_nonempty:
  "buildPoiLabel tags =
     (case first_nonempty tags [''name'', ''name:vi'', ''name:en'', ''amenity'', ''tourism'', ''leisure''] of
        Some (k, v) \<Rightarrow> v
      | None \<Rightarrow> ''Point of interest'')
   \<and> buildPoiLabel [''amenity'' \<mapsto> ''cafe''] = ''cafe''
   \<and> buildPoiLabel Map.empty = ''Point of interest''"
proof (intro conjI)
  show "buildPoiLabel tags =
     (case first_nonempty tags [''name'', ''name:vi'', ''name:en'', ''amenity'', ''tourism'', ''leisure''] of
        Some (k, v) \<Rightarrow> v
      | None \<Rightarrow> ''Point of interest'')"
    by (simp add: buildPoiLabel_def split: option.splits)
  show "buildPoiLabel [''amenity'' \<mapsto> ''cafe''] = ''cafe''"
    by (simp add: buildPoiLabel_def)
  show "buildPoiLabel Map.empty = ''Point of interest''"
    by (simp add: buildPoiLabel_def)
qed

text \<open>
  C6 as stated fails: in the tags \<open>{name: "", amenity: "cafe"}\<close> the first present field
  is the name, whose value is empty, and the code gives \<open>cafe\<close>.
\<close>

theorem buildPoiLabel_empty_name_counterexample:
  "buildPoiLabel [''name'' \<mapsto> [], ''amenity'' \<mapsto> ''cafe''] = ''cafe''
   \<and> label_as_specified [''name'' \<mapsto> [], ''amenity'' \<mapsto> ''cafe''] = []
   \<and> buildPoiLabel [''name'' \<mapsto> [], ''amenity'' \<mapsto> ''cafe'']
       \<noteq> label_as_specified [''name'' \<mapsto> [], ''amenity'' \<mapsto> ''cafe'']"
  by (simp add: buildPoiLabel_def label_as_specified_def)

text \<open>
  C7, as the code has it. The derived category is \<open><field>: <value>\<close> for the first of
  tourism, amenity, historic, leisure, shop whose value is present and not empty, and
  \<open>Other\<close> when there is none; the tags \<open>{tourism: "museum", amenity: "cafe"}\<close> give
  \<open>tourism: museum\<close>.
\<close>

theorem buildCategory_first_nonempty:
  "buildCategory tags =
     (case first_nonempty tags [''tourism'', ''amenity'', ''historic'', ''leisure'', ''shop''] of
        Some (k, v) \<Rightarrow> k @ '': '' @ v
      | None \<Rightarrow> ''Other'')
   \<and> buildCategory [''tourism'' \<mapsto> ''museum'', ''amenity'' \<mapsto> ''cafe''] = ''tourism: museum''"
proof (intro conjI)
  show "buildCategory tags =
     (case first_nonempty tags [''tourism'', ''amenity'', ''historic'', ''leisure'', ''shop''] of
        Some (k, v) \<Rightarrow> k @ '': '' @ v
      | None \<Rightarrow> ''Other'')"
    by (simp add: buildCategory_def candidates_def split: option.splits)
  show "buildCategory [''tourism'' \<mapsto> ''museum'', ''amenity'' \<mapsto> ''cafe''] = ''tourism: museum''"
    by (simp add: buildCategory_def candidates_def)
qed

text \<open>
  C7 as stated fails: in the tags \<open>{tourism: "", amenity: "cafe"}\<close> the first present
  field is tourism, whose value is empty, and the code gives \<open>amenity: cafe\<close>.
\<close>

theorem buildCategory_empty_tourism_counterexample:
  "buildCategory [''tourism'' \<mapsto> [], ''amenity'' \<mapsto> ''cafe''] = ''amenity: cafe''
   \<and> category_as_specified [''tourism'' \<mapsto> [], ''amenity'' \<mapsto> ''cafe''] = ''tourism: ''
   \<and> buildCategory [''tourism'' \<mapsto> [], ''amenity'' \<mapsto> ''cafe'']
       \<noteq> category_as_specified [''tourism'' \<mapsto> [], ''amenity'' \<mapsto> ''cafe'']"
  by (simp add: buildCategory_def candidates_def category_as_specified_def)

text \<open>
  C9. A translation that is asked for while nobody is signed in, with a text that trims
  to nothing, or with no endpoint configured sends no request and sets an error. A
  success response whose translated text is missing, is no string or trims to nothing
  ends with the error that no translated text was returned, and with no result.
\<close>

theorem handleTranslate_local_rejection_and_empty_result:
  "(currentUser s = None \<or> trim englishText = [] \<or> TRANSLATION_ENDPOINT w = [] \<longrightarrow>
      \<not> list_ex is_fetch (handleTranslate w s englishText)
      \<and> translationError (translate w s englishText) \<noteq> []
      \<and> isTranslating (translate w s englishText) = isTranslating s)
   \<and> (currentUser s \<noteq> None \<and> trim englishText \<noteq> [] \<and> TRANSLATION_ENDPOINT w \<noteq> []
        \<and> translate_reply w = Resolved response \<and> ok response \<and> json response = Json data
        \<and> lacks_translation data \<longrightarrow>
      translationError (translate w s englishText) =
        ''Translation service did not return any translated text.''
      \<and> translationResult (translate w s englishText) = [])"
proof (intro conjI impI)
  assume a: "currentUser s = None \<or> trim englishText = [] \<or> TRANSLATION_ENDPOINT w = []"
  show "\<not> list_ex is_fetch (handleTranslate w s englishText)"
    using a by (rule translate_rejected_locally(1))
  show "translationError (translate w s englishText) \<noteq> []"
    using a by (rule translate_rejected_locally(2))
  show "isTranslating (translate w s englishText) = isTranslating s"
    using a by (rule translate_rejected_locally(3))
next
  assume a: "currentUser s \<noteq> None \<and> trim englishText \<noteq> [] \<and> TRANSLATION_ENDPOINT w \<noteq> []
        \<and> translate_reply w = Resolved response \<and> ok response \<and> json response = Json data
        \<and> lacks_translation data"
  then have e: "translatedText data = []"
    by (simp add: translatedText_lacking)
  show "translationError (translate w s englishText) =
      ''Translation service did not return any translated text.''"
    using a e translate_empty_result(1) [of s englishText w response data] by blast
  show "translationResult (translate w s englishText) = []"
    using a e translate_empty_result(2) [of s englishText w response data] by blast
qed

theorem handleTranslate_local_rejection_and_empty_result_witness:
  "TRANSLATION_ENDPOINT no_reply = []
   \<and> \<not> list_ex is_fetch (handleTranslate no_reply signed_in ''Good morning'')
   \<and> translationError (translate no_reply signed_in ''Good morning'') \<noteq> []
   \<and> isTranslating (translate no_reply signed_in ''Good morning'') = isTranslating signed_in
   \<and> currentUser signed_in \<noteq> None \<and> trim ''Good morning'' \<noteq> []
   \<and> TRANSLATION_ENDPOINT blank_translation \<noteq> []
   \<and> lacks_translation (JObj \<lparr>translated_text = JStr ''   '', detail = Undefined, error = Undefined\<rparr>)
   \<and> translationError (translate blank_translation signed_in ''Good morning'') =
       ''Translation service did not return any translated text.''
   \<and> translationResult (translate blank_translation signed_in ''Good morning'') = []"
proof -
  define data where "data = JObj \<lparr>translated_text = JStr ''   '', detail = Undefined, error = Undefined\<rparr>"
  define response :: "translate_json nullable response"
    where "response = \<lparr>ok = True, status = 200, json = Json data\<rparr>"
  have h1: "TRANSLATION_ENDPOINT no_reply = []"
    by (simp add: TRANSLATION_ENDPOINT_def normalizeBaseUrl_def no_reply_def)
  have h2: "currentUser signed_in \<noteq> None" by (simp add: signed_in_def)
  have h3: "trim ''Good morning'' \<noteq> []" by (simp add: trim_def is_js_space_def)
  have h4: "TRANSLATION_ENDPOINT blank_translation \<noteq> []"
    by (simp add: TRANSLATION_ENDPOINT_def normalizeBaseUrl_def blank_translation_def)
  have h5: "translate_reply blank_translation = Resolved response"
    by (simp add: blank_translation_def response_def data_def)
  have h6: "ok response" "json response = Json data" by (simp_all add: response_def)
  have h7: "lacks_translation data"
    by (simp add: lacks_translation_def data_def trim_def is_js_space_def)
  show ?thesis
    using h1 h2 h3 h4 h5 h6 h7
      handleTranslate_local_rejection_and_empty_result
        [of signed_in "''Good morning''" no_reply response data]
      handleTranslate_local_rejection_and_empty_result
        [of signed_in "''Good morning''" blank_translation response data]
    by (simp add: data_def)
qed

text \<open>
  C10. A search that is asked for while nobody is signed in, or with a query that trims
  to nothing, calls one setter, that of the error message, with a message that is not
  empty: the place, the POIs, the weather and the loading flag stay as they were, and
  the loading flag is never set.
\<close>

theorem handleSearch_rejected_locally:
  assumes "currentUser s = None \<or> trim userQuery = []"
  shows "\<exists>msg. msg \<noteq> []
           \<and> handleSearch w s userQuery = [SetErrorMessage msg]
           \<and> search w s userQuery = s\<lparr>errorMessage := msg\<rparr>
           \<and> selectedPlace (search w s userQuery) = selectedPlace s
           \<and> pois (search w s userQuery) = pois s
           \<and> weatherInfo (search w s userQuery) = weatherInfo s
           \<and> isLoading (search w s userQuery) = isLoading s
           \<and> SetIsLoading True \<notin> set (handleSearch w s userQuery)"
proof (cases "currentUser s = None")
  case True
  then show ?thesis
    by (simp add: handleSearch_def search_def run_single)
next
  case False
  with assms have "trim userQuery = []" by simp
  with False show ?thesis
    by (simp add: handleSearch_def search_def run_single)
qed

theorem handleSearch_rejected_locally_witness:
  "trim ''   '' = []
   \<and> handleSearch no_reply signed_in ''   '' = [SetErrorMessage ''Please enter a location name.'']
   \<and> (\<exists>msg. msg \<noteq> []
          \<and> handleSearch no_reply signed_in ''   '' = [SetErrorMessage msg]
          \<and> search no_reply signed_in ''   '' = signed_in\<lparr>errorMessage := msg\<rparr>
          \<and> selectedPlace (search no_reply signed_in ''   '') = selectedPlace signed_in
          \<and> pois (search no_reply signed_in ''   '') = pois signed_in
          \<and> weatherInfo (search no_reply signed_in ''   '') = weatherInfo signed_in
          \<and> isLoading (search no_reply signed_in ''   '') = isLoading signed_in
          \<and> SetIsLoading True \<notin> set (handleSearch no_reply signed_in ''   ''))"
proof -
  have h: "trim ''   '' = []"
    by (simp add: trim_def is_js_space_def)
  have t: "handleSearch no_reply signed_in ''   '' = [SetErrorMessage ''Please enter a location name.'']"
    by (simp add: handleSearch_def h signed_in_def)
  show ?thesis
    using h t handleSearch_rejected_locally [of signed_in "''   ''" no_reply] by blast
qed

end
